theory Spec2Isabelle
  imports Main
begin

section \<open>HTTP envelope and handler outcomes\<close>

text \<open>
  The JSON envelope built by \<open>apiResponse\<close>: \<open>{ success, data?, error?: { message } }\<close>.
  The only payload any handler here returns is \<open>{ redirectUrl }\<close>; \<open>error\<close> holds the
  message of the error object.
\<close>

record response_data =
  redirectUrl :: string

record api_response =
  success :: bool
  data :: "response_data option"
  error :: "string option"

text \<open>
  A handler either answers with \<open>res.status(n).json(body)\<close> or lets an exception escape
  (the message of the thrown error is kept).
\<close>

datatype outcome = Response nat api_response | Thrown string

section \<open>The validation library\<close>

text \<open>
  Request bodies are validated with yup schemas. This section models the part of yup that
  the handlers and the schemas use, on bodies whose fields are present.
\<close>

text \<open>Decimal rendering of a number inside a template literal.\<close>

function string_of_nat :: "nat \<Rightarrow> string" where
  "string_of_nat n =
     (if n < 10 then [''0123456789'' ! n]
      else string_of_nat (n div 10) @ [''0123456789'' ! (n mod 10)])"
  by pat_completeness auto
termination
  by (relation "measure id") auto

declare string_of_nat.simps [simp del]

text \<open>
  The error thrown by \<open>schema.validate\<close>. \<open>errors\<close> holds the message of every failed
  test that was collected. The library sets \<open>message\<close> to
  \<open>errors.length > 1 ? `${errors.length} errors occurred` : errors[0]\<close>; the empty list
  (never thrown by \<open>validate\<close>) is given the empty string.
\<close>

datatype ValidationError = ValidationError (errors: "string list")

definition message :: "ValidationError \<Rightarrow> string" where
  "message e =
     (case errors e of
        [] \<Rightarrow> []
      | [m] \<Rightarrow> m
      | _ \<Rightarrow> string_of_nat (length (errors e)) @ '' errors occurred'')"

text \<open>
  A schema is the list of its tests in declaration order; a test is the predicate that
  must hold of the validated object and the message reported when it does not.
\<close>

type_synonym 'a test = "('a \<Rightarrow> bool) \<times> string"
type_synonym 'a schema = "'a test list"

definition failures :: "'a schema \<Rightarrow> 'a \<Rightarrow> string list" where
  "failures s v = map snd (filter (\<lambda>t. \<not> fst t v) s)"

text \<open>
  \<open>schema.validate(value, { abortEarly })\<close>: with \<open>abortEarly\<close> the first failure is
  thrown alone, without it every test runs and all failures are thrown together.
\<close>

definition validate :: "'a schema \<Rightarrow> 'a \<Rightarrow> bool \<Rightarrow> ValidationError + unit" where
  "validate s v abortEarly =
     (case failures s v of
        [] \<Rightarrow> Inr ()
      | m # ms \<Rightarrow> Inl (ValidationError (if abortEarly then [m] else m # ms)))"

text \<open>The string tests used by the schemas, on a string value.\<close>

definition required :: "string \<Rightarrow> bool" where
  "required v = (v \<noteq> [])"

definition max_length :: "nat \<Rightarrow> string \<Rightarrow> bool" where
  "max_length n v = (length v \<le> n)"

definition min_length :: "nat \<Rightarrow> string \<Rightarrow> bool" where
  "min_length n v = (n \<le> length v)"

text \<open>\<open>matches(/[...]/)\<close> for a character class: some character of the value is in the class.\<close>

definition matches :: "string \<Rightarrow> string \<Rightarrow> bool" where
  "matches cls v = list_ex (\<lambda>c. c \<in> set cls) v"

text \<open>
  \<open>email(msg)\<close> matches the library's e-mail pattern and lets the empty string through;
  the pattern itself is the parameter \<open>rEmail\<close>.
\<close>

definition email_format :: "(string \<Rightarrow> bool) \<Rightarrow> string \<Rightarrow> bool" where
  "email_format rEmail v = (v = [] \<or> rEmail v)"

section \<open>Registration\<close>

text \<open>The fields that \<open>register\<close> takes from the request body.\<close>

record user_input =
  email :: string
  password :: string
  country :: string

definition getCharacterValidationError :: "string \<Rightarrow> string" where
  "getCharacterValidationError str = ''Your password must have at least 1 '' @ str @ '' character''"

text \<open>
  The \<open>validationSchema\<close> of the registration page: the e-mail and password tests, in the
  order they are chained. \<open>max(255)\<close> is given no message there, so the library's default
  \<open>${path} must be at most ${max} characters\<close> applies.
\<close>

definition validationSchema :: "(string \<Rightarrow> bool) \<Rightarrow> user_input schema" where
  "validationSchema rEmail =
     [(\<lambda>b. email_format rEmail (email b), ''Must be a valid email''),
      (\<lambda>b. max_length 255 (email b), ''email must be at most 255 characters''),
      (\<lambda>b. required (email b), ''Email is required''),
      (\<lambda>b. max_length 255 (password b), ''password must be at most 255 characters''),
      (\<lambda>b. required (password b), ''Password is required''),
      (\<lambda>b. min_length 8 (password b), ''Password must have at least 8 characters''),
      (\<lambda>b. matches ''0123456789'' (password b), getCharacterValidationError ''digit''),
      (\<lambda>b. matches ''abcdefghijklmnopqrstuvwxyz'' (password b),
         getCharacterValidationError ''lowercase''),
      (\<lambda>b. matches ''ABCDEFGHIJKLMNOPQRSTUVWXYZ'' (password b),
         getCharacterValidationError ''uppercase'')]"

text \<open>
  Modelled from the spec: \<open>validationSchemas.user\<close> (src/utils/validation_schemas is
  missing). The spec gives the e-mail and password constraints of the registration page
  and adds "country (supported country code)"; the supported codes and the message of
  that test are parameters.
\<close>

definition validationSchemas_user ::
    "(string \<Rightarrow> bool) \<Rightarrow> string list \<Rightarrow> string \<Rightarrow> user_input schema" where
  "validationSchemas_user rEmail supported countryMessage =
     validationSchema rEmail @ [(\<lambda>b. country b \<in> set supported, countryMessage)]"

text \<open>A row of the \<open>user\<close> table and the parameters of \<open>stripe.accounts.create\<close>.\<close>

record user =
  u_email :: string
  u_password :: string
  u_accountId :: string
  u_country :: string

record individual_params =
  id_number :: string

record account_create_params =
  ac_type :: string
  ac_country :: string
  ac_email :: string
  ac_business_type :: "string option"
  ac_individual :: "individual_params option"
  ac_capabilities :: "(string \<times> bool) list"

text \<open>
  The account object of the payments provider, as far as the code reads it:
  \<open>id\<close>, and \<open>requirements?.currently_due\<close>, either of which may be missing.
\<close>

record requirements =
  currently_due :: "string list option"

record account =
  acct_id :: string
  acct_requirements :: "requirements option"

section \<open>Onboarding payloads\<close>

text \<open>
  The session consumed by the onboarding handler, as \<open>getSessionForServerSide\<close> returns it.
  The enum \<open>FinancialProduct\<close> (src/types/financial_product is missing) is taken to have
  the two products of the repository; the handler only compares with \<open>EmbeddedFinance\<close>.
\<close>

datatype FinancialProduct = ExpenseManagement | EmbeddedFinance

record stripeAccount =
  accountId :: string
  platform :: string

record session =
  s_email :: string
  s_stripeAccount :: stripeAccount
  s_country :: string
  financialProduct :: FinancialProduct

record business_input =
  businessName :: string
  skipOnboarding :: "bool option"

text \<open>
  The parameters of \<open>stripe.accounts.update\<close>, as far as the handler sets them. \<open>tos\<close> is
  the shape of the constant \<open>TOS_ACCEPTANCE\<close>, whose value is a parameter.
\<close>

record tos =
  tos_date :: nat
  tos_ip :: string

record business_profile =
  bp_name :: string
  mcc :: "string option"
  product_description :: "string option"
  url :: "string option"

record company =
  co_name :: string
  tax_id :: string

record address =
  line1 :: string
  city :: "string option"
  state :: "string option"
  postal_code :: "string option"
  addr_country :: string

record dob =
  day :: nat
  month :: nat
  year :: nat

record individual =
  ind_address :: address
  ind_dob :: dob
  ind_email :: string
  first_name :: string
  last_name :: string
  phone :: string

record card_issuing_settings =
  ci_tos_acceptance :: tos

record treasury_settings =
  tr_tos_acceptance :: tos

record settings =
  card_issuing :: card_issuing_settings
  treasury :: "treasury_settings option"

record account_update_params =
  up_business_profile :: business_profile
  up_business_type :: "string option"
  up_company :: "company option"
  up_individual :: "individual option"
  up_tos_acceptance :: "tos option"
  up_settings :: "settings option"

text \<open>The parameters of \<open>stripe.accountLinks.create\<close>; \<open>'a\<close> is what the caller passes as account.\<close>

record 'a account_link_params =
  link_type :: string
  link_account :: 'a
  refresh_url :: string
  return_url :: string

section \<open>The world outside the handlers\<close>

text \<open>
  Every call a handler makes to the database or to the payments provider, in the order
  it is made. \<open>findFirst\<close> and \<open>retrieve\<close> only read.
\<close>

datatype 'a call =
    UserFindFirst string
  | UserCreate user
  | AccountsCreate string account_create_params
  | AccountsUpdate string string account_update_params
  | AccountsRetrieve string
  | AccountLinksCreate "'a account_link_params"

fun mutating :: "'a call \<Rightarrow> bool" where
  "mutating (UserFindFirst _) = False"
| "mutating (AccountsRetrieve _) = False"
| "mutating (UserCreate _) = True"
| "mutating (AccountsCreate _ _) = True"
| "mutating (AccountsUpdate _ _ _) = True"
| "mutating (AccountLinksCreate _) = True"

record 'a world =
  users :: "user list"
  calls :: "'a call list"

text \<open>
  What the handlers import and what the outside answers: the demo-mode flag, the constant
  \<open>TOS_ACCEPTANCE\<close>, the environment variable, \<open>getPlatform\<close>, the schemas of
  \<open>validationSchemas\<close>, \<open>bcrypt.hash\<close>, the failure (if any) of an insert into the user
  table, and the answers of the payments provider (\<open>Inl\<close> is a thrown error).
\<close>

record 'a env =
  isDemoMode :: bool
  TOS_ACCEPTANCE :: tos
  CONNECT_ONBOARDING_REDIRECT_URL :: "string option"
  getPlatform :: "string \<Rightarrow> string"
  user_schema :: "user_input schema"
  business_default :: "business_input schema"
  business_withOnbardingSkip :: "business_input schema"
  bcrypt_hash :: "string \<Rightarrow> nat \<Rightarrow> string"
  user_create_error :: "user list \<Rightarrow> user \<Rightarrow> string option"
  accounts_create :: "string \<Rightarrow> account_create_params \<Rightarrow> string + account"
  accounts_update :: "string \<Rightarrow> string \<Rightarrow> account_update_params \<Rightarrow> string + account"
  accounts_retrieve :: "string \<Rightarrow> string + account option"
  accountLinks_create :: "'a account_link_params \<Rightarrow> string + string"

definition issue :: "'a call \<Rightarrow> 'a world \<Rightarrow> 'a world" where
  "issue c w = w\<lparr>calls := calls w @ [c]\<rparr>"

section \<open>The register handler\<close>

text \<open>The argument of \<open>stripe.accounts.create\<close> in \<open>register\<close>.\<close>

definition create_params :: "'a env \<Rightarrow> user_input \<Rightarrow> account_create_params" where
  "create_params env body =
     (let base = \<lparr>ac_type = ''custom'', ac_country = country body, ac_email = email body,
                   ac_business_type = None, ac_individual = None,
                   ac_capabilities = [(''transfers'', True), (''card_issuing'', True)]\<rparr>
      in if isDemoMode env
         then base\<lparr>ac_business_type := Some ''individual'',
                   ac_individual := Some \<lparr>id_number = ''000000000''\<rparr>\<rparr>
         else base)"

definition new_user :: "'a env \<Rightarrow> user_input \<Rightarrow> account \<Rightarrow> user" where
  "new_user env body account =
     \<lparr>u_email = email body, u_password = bcrypt_hash env (password body) 10,
      u_accountId = acct_id account, u_country = country body\<rparr>"

definition register :: "'a env \<Rightarrow> user_input \<Rightarrow> 'a world \<Rightarrow> outcome \<times> 'a world" where
  "register env body w =
     (case validate (user_schema env) body False of
        Inl err \<Rightarrow>
          (Response 400 \<lparr>success = False, data = None, error = Some (message err)\<rparr>, w)
      | Inr _ \<Rightarrow>
          (let w1 = issue (UserFindFirst (email body)) w in
           case find (\<lambda>u. u_email u = email body) (users w) of
             Some user \<Rightarrow>
               (Response 400
                  \<lparr>success = False, data = None, error = Some ''Account already exists''\<rparr>, w1)
           | None \<Rightarrow>
               (let platform = getPlatform env (country body);
                    w2 = issue (AccountsCreate platform (create_params env body)) w1 in
                case accounts_create env platform (create_params env body) of
                  Inl e \<Rightarrow> (Thrown e, w2)
                | Inr account \<Rightarrow>
                    (let row = new_user env body account;
                         w3 = issue (UserCreate row) w2 in
                     case user_create_error env (users w) row of
                       Some e \<Rightarrow> (Thrown e, w3)
                     | None \<Rightarrow>
                         (Response 200 \<lparr>success = True, data = None, error = None\<rparr>,
                          w3\<lparr>users := users w @ [row]\<rparr>)))))"

section \<open>Onboarding helpers\<close>

definition IGNORE_REQUIREMENTS :: "string list" where
  "IGNORE_REQUIREMENTS = [''external_account'']"

text \<open>
  The expression bound to \<open>result\<close>: the optional chain
  \<open>account?.requirements?.currently_due?.filter(...).length\<close>, then \<open>?? 0\<close>, then \<open>> 0\<close>.
\<close>

definition outstanding :: "account option \<Rightarrow> bool" where
  "outstanding account =
     (0 < (case map_option
                  (\<lambda>due. length (filter (\<lambda>requirement.
                                            requirement \<notin> set IGNORE_REQUIREMENTS) due))
                  (Option.bind (Option.bind account acct_requirements) currently_due) of
             None \<Rightarrow> (0::nat)
           | Some n \<Rightarrow> n))"

definition hasOutstandingRequirements ::
    "'a env \<Rightarrow> string \<Rightarrow> 'a world \<Rightarrow> (string + bool) \<times> 'a world" where
  "hasOutstandingRequirements env account_id w =
     (let w1 = issue (AccountsRetrieve account_id) w in
      case accounts_retrieve env account_id of
        Inl e \<Rightarrow> (Inl e, w1)
      | Inr account \<Rightarrow> (Inr (outstanding account), w1))"

definition createAccountOnboardingUrl ::
    "'a env \<Rightarrow> 'a \<Rightarrow> 'a world \<Rightarrow> (string + string) \<times> 'a world" where
  "createAccountOnboardingUrl env account_id w =
     (case CONNECT_ONBOARDING_REDIRECT_URL env of
        None \<Rightarrow> (Inl ''CONNECT_ONBOARDING_REDIRECT_URL is not set'', w)
      | Some connectOnboardingRedirectUrl \<Rightarrow>
          (let params = \<lparr>link_type = ''account_onboarding'', link_account = account_id,
                         refresh_url = connectOnboardingRedirectUrl @ ''/onboard'',
                         return_url = connectOnboardingRedirectUrl @ ''/''\<rparr>;
               w1 = issue (AccountLinksCreate params) w in
           case accountLinks_create env params of
             Inl e \<Rightarrow> (Inl e, w1)
           | Inr link_url \<Rightarrow> (Inr link_url, w1)))"

section \<open>The onboard handler\<close>

text \<open>The object bound to \<open>onboardingData\<close>; a later key of the literal replaces an earlier one.\<close>

definition onboardingData ::
    "'a env \<Rightarrow> session \<Rightarrow> business_input \<Rightarrow> account_update_params" where
  "onboardingData env sess body =
     (let base = \<lparr>up_business_profile =
                     \<lparr>bp_name = businessName body, mcc = None, product_description = None,
                      url = None\<rparr>,
                   up_business_type = None, up_company = None, up_individual = None,
                   up_tos_acceptance = None, up_settings = None\<rparr>;
          a0 = \<lparr>line1 = ''address_full_match'', city = None, state = None,
                 postal_code = None, addr_country = s_country sess\<rparr>;
          a1 = (if s_country sess = ''US''
                then a0\<lparr>city := Some ''South San Francisco'', state := Some ''CA'',
                        postal_code := Some ''94080''\<rparr>
                else a0);
          a2 = (if s_country sess = ''GB''
                then a1\<lparr>city := Some ''London'', postal_code := Some ''WC32 4AP''\<rparr>
                else a1)
      in if isDemoMode env
         then base
           \<lparr>up_business_type := Some ''individual'',
            up_business_profile :=
              \<lparr>bp_name = businessName body, mcc = Some ''5734'',
               product_description = Some ''Some demo product'',
               url = Some ''https://some-company.com''\<rparr>,
            up_company := Some \<lparr>co_name = businessName body, tax_id = ''000000000''\<rparr>,
            up_individual :=
              Some \<lparr>ind_address = a2, ind_dob = \<lparr>day = 1, month = 1, year = 1901\<rparr>,
                    ind_email = s_email sess, first_name = ''John'', last_name = ''Smith'',
                    phone = ''2015550123''\<rparr>,
            up_tos_acceptance :=
              (if skipOnboarding body = Some True then Some (TOS_ACCEPTANCE env) else None),
            up_settings :=
              Some \<lparr>card_issuing = \<lparr>ci_tos_acceptance = TOS_ACCEPTANCE env\<rparr>,
                    treasury =
                      (if financialProduct sess = EmbeddedFinance
                       then Some \<lparr>tr_tos_acceptance = TOS_ACCEPTANCE env\<rparr>
                       else None)\<rparr>\<rparr>
         else base)"

definition onboard ::
    "stripeAccount env \<Rightarrow> session \<Rightarrow> business_input \<Rightarrow> stripeAccount world
       \<Rightarrow> outcome \<times> stripeAccount world" where
  "onboard env sess body w =
     (let validationSchema =
            (if isDemoMode env then business_withOnbardingSkip env else business_default env)
      in case validate validationSchema body False of
           Inl err \<Rightarrow>
             (Response 400 \<lparr>success = False, data = None, error = Some (message err)\<rparr>, w)
         | Inr _ \<Rightarrow>
             (let w1 = issue (AccountsUpdate (platform (s_stripeAccount sess))
                                (accountId (s_stripeAccount sess))
                                (onboardingData env sess body)) w
              in case accounts_update env (platform (s_stripeAccount sess))
                        (accountId (s_stripeAccount sess)) (onboardingData env sess body) of
                   Inl e \<Rightarrow> (Thrown e, w1)
                 | Inr _ \<Rightarrow>
                     if isDemoMode env \<and> skipOnboarding body = Some True
                     then (Response 200
                             \<lparr>success = True, data = Some \<lparr>redirectUrl = ''/''\<rparr>,
                              error = None\<rparr>, w1)
                     else (case createAccountOnboardingUrl env (s_stripeAccount sess) w1 of
                             (Inl e, w2) \<Rightarrow> (Thrown e, w2)
                           | (Inr onboardingUrl, w2) \<Rightarrow>
                               (Response 200
                                  \<lparr>success = True,
                                   data = Some \<lparr>redirectUrl = onboardingUrl\<rparr>,
                                   error = None\<rparr>, w2))))"

section \<open>A sample environment\<close>

text \<open>
  A concrete environment on which the handlers can be evaluated: demo mode on, a provider
  that accepts every request, a database that accepts every insert. The e-mail pattern is
  replaced by "contains an at sign" and the hash by a tagged copy.
\<close>

definition sample_env :: "stripeAccount env" where
  "sample_env =
     \<lparr>isDemoMode = True,
      TOS_ACCEPTANCE = \<lparr>tos_date = 1691518261, tos_ip = ''127.0.0.1''\<rparr>,
      CONNECT_ONBOARDING_REDIRECT_URL = Some ''http://localhost:3000'',
      getPlatform = (\<lambda>c. c),
      user_schema =
        validationSchemas_user (\<lambda>v. CHR ''@'' \<in> set v) [''US'', ''GB''] ''Country is not supported'',
      business_default = [(\<lambda>b. required (businessName b), ''Business name is required'')],
      business_withOnbardingSkip =
        [(\<lambda>b. required (businessName b), ''Business name is required'')],
      bcrypt_hash = (\<lambda>p rounds. ''$2b$'' @ string_of_nat rounds @ ''$'' @ p),
      user_create_error = (\<lambda>db row. None),
      accounts_create = (\<lambda>p params. Inr \<lparr>acct_id = ''acct_1'', acct_requirements = None\<rparr>),
      accounts_update = (\<lambda>p a params. Inr \<lparr>acct_id = a, acct_requirements = None\<rparr>),
      accounts_retrieve =
        (\<lambda>a. Inr (Some \<lparr>acct_id = a,
                          acct_requirements =
                            Some \<lparr>currently_due = Some [''external_account'']\<rparr>\<rparr>)),
      accountLinks_create =
        (\<lambda>params. Inr (''https://connect.stripe.com/setup/'' @ accountId (link_account params)))\<rparr>"

definition sample_input :: user_input where
  "sample_input = \<lparr>email = ''jenny@example.com'', password = ''Passw0rd'', country = ''US''\<rparr>"

definition empty_world :: "stripeAccount world" where
  "empty_world = \<lparr>users = [], calls = []\<rparr>"

definition sample_session :: session where
  "sample_session =
     \<lparr>s_email = ''jenny@example.com'',
      s_stripeAccount = \<lparr>accountId = ''acct_1'', platform = ''US''\<rparr>,
      s_country = ''US'', financialProduct = EmbeddedFinance\<rparr>"

definition sample_business :: business_input where
  "sample_business = \<lparr>businessName = ''Acme'', skipOnboarding = None\<rparr>"

section \<open>Facts about validation\<close>

lemma validate_Inr_iff: "validate s v a = Inr u \<longleftrightarrow> failures s v = []"
  by (simp add: validate_def split: list.splits)

lemma validate_eager: "validate s v False = Inl e \<Longrightarrow> errors e = failures s v"
  by (auto simp: validate_def split: list.splits)

lemma failures_complete: "t \<in> set s \<Longrightarrow> \<not> fst t v \<Longrightarrow> snd t \<in> set (failures s v)"
  by (auto simp: failures_def)

lemma message_single: "errors e = [m] \<Longrightarrow> message e = m"
  by (simp add: message_def)

lemma message_many:
  "2 \<le> length (errors e) \<Longrightarrow> message e = string_of_nat (length (errors e)) @ '' errors occurred''"
  by (auto simp: message_def split: list.splits)

lemma sample_input_valid: "validate (user_schema sample_env) sample_input False = Inr ()"
  by (simp add: validate_Inr_iff failures_def sample_env_def sample_input_def
      validationSchemas_user_def validationSchema_def email_format_def max_length_def
      min_length_def required_def matches_def)

section \<open>The paths through register\<close>

lemma register_invalid:
  "validate (user_schema env) body False = Inl e \<Longrightarrow>
   register env body w =
     (Response 400 \<lparr>success = False, data = None, error = Some (message e)\<rparr>, w)"
  by (simp add: register_def)

lemma register_existing:
  "validate (user_schema env) body False = Inr u \<Longrightarrow>
   find (\<lambda>u. u_email u = email body) (users w) = Some x \<Longrightarrow>
   register env body w =
     (Response 400 \<lparr>success = False, data = None, error = Some ''Account already exists''\<rparr>,
      \<lparr>users = users w, calls = calls w @ [UserFindFirst (email body)]\<rparr>)"
  by (simp add: register_def issue_def)

lemma register_remote_error:
  "validate (user_schema env) body False = Inr u \<Longrightarrow>
   find (\<lambda>u. u_email u = email body) (users w) = None \<Longrightarrow>
   accounts_create env (getPlatform env (country body)) (create_params env body) = Inl e \<Longrightarrow>
   register env body w =
     (Thrown e,
      \<lparr>users = users w,
       calls = calls w @ [UserFindFirst (email body),
                          AccountsCreate (getPlatform env (country body)) (create_params env body)]\<rparr>)"
  by (simp add: register_def issue_def)

lemma register_insert_error:
  "validate (user_schema env) body False = Inr u \<Longrightarrow>
   find (\<lambda>u. u_email u = email body) (users w) = None \<Longrightarrow>
   accounts_create env (getPlatform env (country body)) (create_params env body) = Inr account \<Longrightarrow>
   user_create_error env (users w) (new_user env body account) = Some e \<Longrightarrow>
   register env body w =
     (Thrown e,
      \<lparr>users = users w,
       calls = calls w @ [UserFindFirst (email body),
                          AccountsCreate (getPlatform env (country body)) (create_params env body),
                          UserCreate (new_user env body account)]\<rparr>)"
  by (simp add: register_def issue_def)

lemma register_success:
  "validate (user_schema env) body False = Inr u \<Longrightarrow>
   find (\<lambda>u. u_email u = email body) (users w) = None \<Longrightarrow>
   accounts_create env (getPlatform env (country body)) (create_params env body) = Inr account \<Longrightarrow>
   user_create_error env (users w) (new_user env body account) = None \<Longrightarrow>
   register env body w =
     (Response 200 \<lparr>success = True, data = None, error = None\<rparr>,
      \<lparr>users = users w @ [new_user env body account],
       calls = calls w @ [UserFindFirst (email body),
                          AccountsCreate (getPlatform env (country body)) (create_params env body),
                          UserCreate (new_user env body account)]\<rparr>)"
  by (simp add: register_def issue_def Let_def)

lemma create_params_eq:
  "create_params env body =
     \<lparr>ac_type = ''custom'', ac_country = country body, ac_email = email body,
      ac_business_type = (if isDemoMode env then Some ''individual'' else None),
      ac_individual = (if isDemoMode env then Some \<lparr>id_number = ''000000000''\<rparr> else None),
      ac_capabilities = [(''transfers'', True), (''card_issuing'', True)]\<rparr>"
  by (simp add: create_params_def Let_def)

lemma new_user_eq:
  "new_user env body account =
     \<lparr>u_email = email body, u_password = bcrypt_hash env (password body) 10,
      u_accountId = acct_id account, u_country = country body\<rparr>"
  by (simp add: new_user_def)

lemma find_None_filter: "find P xs = None \<Longrightarrow> filter P xs = []"
  by (induction xs) (auto split: if_splits)

lemma find_snoc_hit: "P y \<Longrightarrow> \<exists>x. find P (xs @ [y]) = Some x"
  by (induction xs) auto

lemma register_users_changed:
  assumes "users (snd (register env body w)) \<noteq> users w"
  shows "\<exists>account.
           accounts_create env (getPlatform env (country body)) (create_params env body) = Inr account \<and>
           users (snd (register env body w)) = users w @ [new_user env body account] \<and>
           calls (snd (register env body w)) =
             calls w @ [UserFindFirst (email body),
                        AccountsCreate (getPlatform env (country body)) (create_params env body),
                        UserCreate (new_user env body account)]"
  using assms
  by (auto simp: register_def issue_def Let_def split: sum.splits option.splits)

lemma register_200:
  assumes "register env body w = (Response 200 r, w')"
  shows "\<exists>account. users w' = users w @ [new_user env body account]"
  using assms
  by (auto simp: register_def issue_def Let_def split: sum.splits option.splits)

lemma register_reads_or_keeps:
  assumes "find (\<lambda>u. u_email u = email body) (users w) = Some x"
  shows "(\<exists>m. fst (register env body w) =
               Response 400 \<lparr>success = False, data = None, error = Some m\<rparr>) \<and>
         users (snd (register env body w)) = users w \<and>
         filter mutating (drop (length (calls w)) (calls (snd (register env body w)))) = []"
  using assms
  by (auto simp: register_def issue_def Let_def split: sum.splits option.splits)

lemma register_accounts_create_calls:
  assumes "AccountsCreate pl p \<in> set (drop (length (calls w)) (calls (snd (register env body w))))"
  shows "pl = getPlatform env (country body) \<and> p = create_params env body"
  using assms
  by (auto simp: register_def issue_def Let_def split: sum.splits option.splits)

lemma register_reaches_create:
  assumes "validate (user_schema env) body False = Inr u"
      and "find (\<lambda>u. u_email u = email body) (users w) = None"
  shows "\<exists>rest. calls (snd (register env body w)) =
           calls w @ [UserFindFirst (email body),
                      AccountsCreate (getPlatform env (country body)) (create_params env body)] @ rest"
  using assms
  by (auto simp: register_def issue_def Let_def split: sum.splits option.splits)

section \<open>Claims about register\<close>

text \<open>
  C1. A valid registration whose e-mail has no user row, for which the provider creates the
  account and the insert goes through, answers 200 with no payload, issues the account
  creation before the insert, and adds exactly one user row for that e-mail: it carries
  the id of the created account and the hash of the password. Conversely, whenever the
  user table changes at all, the account creation has succeeded and was issued before
  the insert.
\<close>

theorem register_creates_account_then_user:
  "(validate (user_schema env) body False = Inr () \<and>
    find (\<lambda>u. u_email u = email body) (users w) = None \<and>
    accounts_create env (getPlatform env (country body)) (create_params env body) = Inr account \<and>
    user_create_error env (users w) (new_user env body account) = None \<longrightarrow>
      register env body w =
        (Response 200 \<lparr>success = True, data = None, error = None\<rparr>,
         \<lparr>users = users w @ [new_user env body account],
          calls = calls w @ [UserFindFirst (email body),
                             AccountsCreate (getPlatform env (country body)) (create_params env body),
                             UserCreate (new_user env body account)]\<rparr>) \<and>
      new_user env body account =
        \<lparr>u_email = email body, u_password = bcrypt_hash env (password body) 10,
         u_accountId = acct_id account, u_country = country body\<rparr> \<and>
      filter (\<lambda>u. u_email u = email body) (users (snd (register env body w))) =
        [new_user env body account]) \<and>
   (users (snd (register env body w)) \<noteq> users w \<longrightarrow>
      (\<exists>account.
         accounts_create env (getPlatform env (country body)) (create_params env body) = Inr account \<and>
         users (snd (register env body w)) = users w @ [new_user env body account] \<and>
         calls (snd (register env body w)) =
           calls w @ [UserFindFirst (email body),
                      AccountsCreate (getPlatform env (country body)) (create_params env body),
                      UserCreate (new_user env body account)]))"
proof (intro conjI impI)
  assume h: "validate (user_schema env) body False = Inr () \<and>
    find (\<lambda>u. u_email u = email body) (users w) = None \<and>
    accounts_create env (getPlatform env (country body)) (create_params env body) = Inr account \<and>
    user_create_error env (users w) (new_user env body account) = None"
  then have r: "register env body w =
        (Response 200 \<lparr>success = True, data = None, error = None\<rparr>,
         \<lparr>users = users w @ [new_user env body account],
          calls = calls w @ [UserFindFirst (email body),
                             AccountsCreate (getPlatform env (country body)) (create_params env body),
                             UserCreate (new_user env body account)]\<rparr>)"
    by (simp add: register_success)
  show "register env body w =
        (Response 200 \<lparr>success = True, data = None, error = None\<rparr>,
         \<lparr>users = users w @ [new_user env body account],
          calls = calls w @ [UserFindFirst (email body),
                             AccountsCreate (getPlatform env (country body)) (create_params env body),
                             UserCreate (new_user env body account)]\<rparr>)"
    by (rule r)
  show "new_user env body account =
        \<lparr>u_email = email body, u_password = bcrypt_hash env (password body) 10,
         u_accountId = acct_id account, u_country = country body\<rparr>"
    by (rule new_user_eq)
  from h have "filter (\<lambda>u. u_email u = email body) (users w) = []"
    by (simp add: find_None_filter)
  then show "filter (\<lambda>u. u_email u = email body) (users (snd (register env body w))) =
        [new_user env body account]"
    by (simp add: r new_user_def)
next
  assume "users (snd (register env body w)) \<noteq> users w"
  then show "\<exists>account.
         accounts_create env (getPlatform env (country body)) (create_params env body) = Inr account \<and>
         users (snd (register env body w)) = users w @ [new_user env body account] \<and>
         calls (snd (register env body w)) =
           calls w @ [UserFindFirst (email body),
                      AccountsCreate (getPlatform env (country body)) (create_params env body),
                      UserCreate (new_user env body account)]"
    by (rule register_users_changed)
qed

theorem register_creates_account_then_user_witness:
  "validate (user_schema sample_env) sample_input False = Inr () \<and>
   find (\<lambda>u. u_email u = email sample_input) (users empty_world) = None \<and>
   register sample_env sample_input empty_world =
     (Response 200 \<lparr>success = True, data = None, error = None\<rparr>,
      \<lparr>users = [\<lparr>u_email = ''jenny@example.com'', u_password = ''$2b$10$Passw0rd'',
                 u_accountId = ''acct_1'', u_country = ''US''\<rparr>],
       calls = [UserFindFirst ''jenny@example.com'',
                AccountsCreate ''US''
                  \<lparr>ac_type = ''custom'', ac_country = ''US'', ac_email = ''jenny@example.com'',
                   ac_business_type = Some ''individual'',
                   ac_individual = Some \<lparr>id_number = ''000000000''\<rparr>,
                   ac_capabilities = [(''transfers'', True), (''card_issuing'', True)]\<rparr>,
                UserCreate \<lparr>u_email = ''jenny@example.com'', u_password = ''$2b$10$Passw0rd'',
                            u_accountId = ''acct_1'', u_country = ''US''\<rparr>]\<rparr>) \<and>
   users (snd (register sample_env sample_input empty_world)) \<noteq> users empty_world"
proof -
  have v: "validate (user_schema sample_env) sample_input False = Inr ()"
    by (rule sample_input_valid)
  have f: "find (\<lambda>u. u_email u = email sample_input) (users empty_world) = None"
    by (simp add: empty_world_def)
  have a: "accounts_create sample_env (getPlatform sample_env (country sample_input))
             (create_params sample_env sample_input) =
           Inr \<lparr>acct_id = ''acct_1'', acct_requirements = None\<rparr>"
    by (simp add: sample_env_def)
  have c: "user_create_error sample_env (users empty_world)
             (new_user sample_env sample_input \<lparr>acct_id = ''acct_1'', acct_requirements = None\<rparr>) = None"
    by (simp add: sample_env_def)
  from register_creates_account_then_user
         [of sample_env sample_input empty_world "\<lparr>acct_id = ''acct_1'', acct_requirements = None\<rparr>"]
       v f a c
  have "register sample_env sample_input empty_world =
        (Response 200 \<lparr>success = True, data = None, error = None\<rparr>,
         \<lparr>users = users empty_world @
                  [new_user sample_env sample_input \<lparr>acct_id = ''acct_1'', acct_requirements = None\<rparr>],
          calls = calls empty_world @
                  [UserFindFirst (email sample_input),
                   AccountsCreate (getPlatform sample_env (country sample_input))
                     (create_params sample_env sample_input),
                   UserCreate (new_user sample_env sample_input
                                \<lparr>acct_id = ''acct_1'', acct_requirements = None\<rparr>)]\<rparr>)"
    by blast
  then show ?thesis
    using v f
    by (simp add: create_params_eq new_user_eq sample_env_def sample_input_def empty_world_def
        string_of_nat.simps)
qed

text \<open>
  C2. A registration whose e-mail already has a user row is answered with 400, leaves the
  user table as it was and issues no mutating call; when the input passes validation (the
  existence check comes after it) the message is "Account already exists" and the only
  call is the lookup. In particular, after a successful registration a second valid
  registration of the same e-mail is refused that way, with no further account and no
  further row.
\<close>

theorem register_existing_account_rejected:
  "(find (\<lambda>u. u_email u = email body) (users w) = Some x \<longrightarrow>
      (\<exists>m. fst (register env body w) =
            Response 400 \<lparr>success = False, data = None, error = Some m\<rparr>) \<and>
      users (snd (register env body w)) = users w \<and>
      filter mutating (drop (length (calls w)) (calls (snd (register env body w)))) = []) \<and>
   (find (\<lambda>u. u_email u = email body) (users w) = Some x \<and>
    validate (user_schema env) body False = Inr () \<longrightarrow>
      register env body w =
        (Response 400 \<lparr>success = False, data = None, error = Some ''Account already exists''\<rparr>,
         \<lparr>users = users w, calls = calls w @ [UserFindFirst (email body)]\<rparr>)) \<and>
   (register env body w = (Response 200 r, w') \<and>
    validate (user_schema env) body' False = Inr () \<and> email body' = email body \<longrightarrow>
      register env body' w' =
        (Response 400 \<lparr>success = False, data = None, error = Some ''Account already exists''\<rparr>,
         \<lparr>users = users w', calls = calls w' @ [UserFindFirst (email body)]\<rparr>))"
proof (intro conjI impI)
  assume "find (\<lambda>u. u_email u = email body) (users w) = Some x"
  then have k: "(\<exists>m. fst (register env body w) =
                  Response 400 \<lparr>success = False, data = None, error = Some m\<rparr>) \<and>
         users (snd (register env body w)) = users w \<and>
         filter mutating (drop (length (calls w)) (calls (snd (register env body w)))) = []"
    by (rule register_reads_or_keeps)
  from k show "\<exists>m. fst (register env body w) =
                  Response 400 \<lparr>success = False, data = None, error = Some m\<rparr>"
    by blast
  from k show "users (snd (register env body w)) = users w"
    by blast
  from k show "filter mutating (drop (length (calls w)) (calls (snd (register env body w)))) = []"
    by blast
next
  assume "find (\<lambda>u. u_email u = email body) (users w) = Some x \<and>
          validate (user_schema env) body False = Inr ()"
  then show "register env body w =
        (Response 400 \<lparr>success = False, data = None, error = Some ''Account already exists''\<rparr>,
         \<lparr>users = users w, calls = calls w @ [UserFindFirst (email body)]\<rparr>)"
    by (simp add: register_existing)
next
  assume h: "register env body w = (Response 200 r, w') \<and>
             validate (user_schema env) body' False = Inr () \<and> email body' = email body"
  then obtain account where "users w' = users w @ [new_user env body account]"
    using register_200 by blast
  then have "\<exists>y. find (\<lambda>u. u_email u = email body') (users w') = Some y"
    using h by (simp add: find_snoc_hit new_user_def)
  then obtain y where "find (\<lambda>u. u_email u = email body') (users w') = Some y"
    by blast
  with h have "register env body' w' =
        (Response 400 \<lparr>success = False, data = None, error = Some ''Account already exists''\<rparr>,
         \<lparr>users = users w', calls = calls w' @ [UserFindFirst (email body')]\<rparr>)"
    by (simp add: register_existing)
  with h show "register env body' w' =
        (Response 400 \<lparr>success = False, data = None, error = Some ''Account already exists''\<rparr>,
         \<lparr>users = users w', calls = calls w' @ [UserFindFirst (email body)]\<rparr>)"
    by simp
qed

theorem register_existing_account_rejected_witness:
  "register sample_env sample_input empty_world =
     (Response 200 \<lparr>success = True, data = None, error = None\<rparr>,
      snd (register sample_env sample_input empty_world)) \<and>
   validate (user_schema sample_env) (sample_input\<lparr>password := ''0therPass''\<rparr>) False = Inr () \<and>
   find (\<lambda>u. u_email u = ''jenny@example.com'')
     (users (snd (register sample_env sample_input empty_world))) =
     Some \<lparr>u_email = ''jenny@example.com'', u_password = ''$2b$10$Passw0rd'',
           u_accountId = ''acct_1'', u_country = ''US''\<rparr> \<and>
   register sample_env (sample_input\<lparr>password := ''0therPass''\<rparr>)
       (snd (register sample_env sample_input empty_world)) =
     (Response 400 \<lparr>success = False, data = None, error = Some ''Account already exists''\<rparr>,
      \<lparr>users = [\<lparr>u_email = ''jenny@example.com'', u_password = ''$2b$10$Passw0rd'',
                 u_accountId = ''acct_1'', u_country = ''US''\<rparr>],
       calls = [UserFindFirst ''jenny@example.com'',
                AccountsCreate ''US''
                  \<lparr>ac_type = ''custom'', ac_country = ''US'', ac_email = ''jenny@example.com'',
                   ac_business_type = Some ''individual'',
                   ac_individual = Some \<lparr>id_number = ''000000000''\<rparr>,
                   ac_capabilities = [(''transfers'', True), (''card_issuing'', True)]\<rparr>,
                UserCreate \<lparr>u_email = ''jenny@example.com'', u_password = ''$2b$10$Passw0rd'',
                            u_accountId = ''acct_1'', u_country = ''US''\<rparr>,
                UserFindFirst ''jenny@example.com'']\<rparr>)"
proof -
  let ?w1 = "snd (register sample_env sample_input empty_world)"
  let ?row = "\<lparr>u_email = ''jenny@example.com'', u_password = ''$2b$10$Passw0rd'',
               u_accountId = ''acct_1'', u_country = ''US''\<rparr>"
  have first: "register sample_env sample_input empty_world =
     (Response 200 \<lparr>success = True, data = None, error = None\<rparr>,
      \<lparr>users = [?row],
       calls = [UserFindFirst ''jenny@example.com'',
                AccountsCreate ''US''
                  \<lparr>ac_type = ''custom'', ac_country = ''US'', ac_email = ''jenny@example.com'',
                   ac_business_type = Some ''individual'',
                   ac_individual = Some \<lparr>id_number = ''000000000''\<rparr>,
                   ac_capabilities = [(''transfers'', True), (''card_issuing'', True)]\<rparr>,
                UserCreate ?row]\<rparr>)"
    using register_success [of sample_env sample_input "()" empty_world
        "\<lparr>acct_id = ''acct_1'', acct_requirements = None\<rparr>"] sample_input_valid
    by (simp add: create_params_eq new_user_eq sample_env_def sample_input_def empty_world_def
        string_of_nat.simps)
  have v: "validate (user_schema sample_env) (sample_input\<lparr>password := ''0therPass''\<rparr>) False = Inr ()"
    by (simp add: validate_Inr_iff failures_def sample_env_def sample_input_def
      validationSchemas_user_def validationSchema_def email_format_def max_length_def
      min_length_def required_def matches_def)
  have e: "email (sample_input\<lparr>password := ''0therPass''\<rparr>) = email sample_input"
    by simp
  have f: "find (\<lambda>u. u_email u = email (sample_input\<lparr>password := ''0therPass''\<rparr>)) (users ?w1) =
           Some ?row"
    unfolding first by (simp add: sample_input_def)
  from register_existing_account_rejected
         [of "sample_input\<lparr>password := ''0therPass''\<rparr>" ?w1 ?row sample_env
             "\<lparr>success = True, data = None, error = None\<rparr>" ?w1] v f
  have "register sample_env (sample_input\<lparr>password := ''0therPass''\<rparr>) ?w1 =
        (Response 400 \<lparr>success = False, data = None, error = Some ''Account already exists''\<rparr>,
         \<lparr>users = users ?w1,
          calls = calls ?w1 @ [UserFindFirst (email (sample_input\<lparr>password := ''0therPass''\<rparr>))]\<rparr>)"
    by blast
  then show ?thesis
    using v f unfolding first by (simp add: sample_input_def)
qed

text \<open>
  C7. Every account creation that register issues is sent to the platform of the given
  country and has type "custom", the given country and e-mail, and the two capabilities
  transfers and card_issuing, both requested; in demo mode it also has business type
  "individual" and the individual tax id 000000000, outside demo mode it has neither. A
  valid registration of an unregistered e-mail issues that request right after the lookup.
\<close>

theorem register_create_account_request:
  "(validate (user_schema env) body False = Inr () \<and>
    find (\<lambda>u. u_email u = email body) (users w) = None \<longrightarrow>
      (\<exists>rest. calls (snd (register env body w)) =
         calls w @
         [UserFindFirst (email body),
          AccountsCreate (getPlatform env (country body))
            \<lparr>ac_type = ''custom'', ac_country = country body, ac_email = email body,
             ac_business_type = (if isDemoMode env then Some ''individual'' else None),
             ac_individual = (if isDemoMode env then Some \<lparr>id_number = ''000000000''\<rparr> else None),
             ac_capabilities = [(''transfers'', True), (''card_issuing'', True)]\<rparr>] @ rest)) \<and>
   (\<forall>pl p. AccountsCreate pl p
              \<in> set (drop (length (calls w)) (calls (snd (register env body w)))) \<longrightarrow>
      pl = getPlatform env (country body) \<and>
      ac_type p = ''custom'' \<and> ac_country p = country body \<and> ac_email p = email body \<and>
      ac_capabilities p = [(''transfers'', True), (''card_issuing'', True)] \<and>
      (isDemoMode env \<longrightarrow>
         ac_business_type p = Some ''individual'' \<and>
         ac_individual p = Some \<lparr>id_number = ''000000000''\<rparr>) \<and>
      (\<not> isDemoMode env \<longrightarrow> ac_business_type p = None \<and> ac_individual p = None))"
proof (rule conjI)
  show "validate (user_schema env) body False = Inr () \<and>
    find (\<lambda>u. u_email u = email body) (users w) = None \<longrightarrow>
      (\<exists>rest. calls (snd (register env body w)) =
         calls w @
         [UserFindFirst (email body),
          AccountsCreate (getPlatform env (country body))
            \<lparr>ac_type = ''custom'', ac_country = country body, ac_email = email body,
             ac_business_type = (if isDemoMode env then Some ''individual'' else None),
             ac_individual = (if isDemoMode env then Some \<lparr>id_number = ''000000000''\<rparr> else None),
             ac_capabilities = [(''transfers'', True), (''card_issuing'', True)]\<rparr>] @ rest)"
    using register_reaches_create [of env body "()" w]
    by (simp only: create_params_eq) blast
next
  show "\<forall>pl p. AccountsCreate pl p
              \<in> set (drop (length (calls w)) (calls (snd (register env body w)))) \<longrightarrow>
      pl = getPlatform env (country body) \<and>
      ac_type p = ''custom'' \<and> ac_country p = country body \<and> ac_email p = email body \<and>
      ac_capabilities p = [(''transfers'', True), (''card_issuing'', True)] \<and>
      (isDemoMode env \<longrightarrow>
         ac_business_type p = Some ''individual'' \<and>
         ac_individual p = Some \<lparr>id_number = ''000000000''\<rparr>) \<and>
      (\<not> isDemoMode env \<longrightarrow> ac_business_type p = None \<and> ac_individual p = None)"
  proof (intro allI impI)
    fix pl p
    assume "AccountsCreate pl p
              \<in> set (drop (length (calls w)) (calls (snd (register env body w))))"
    then have "pl = getPlatform env (country body) \<and> p = create_params env body"
      by (rule register_accounts_create_calls)
    then show "pl = getPlatform env (country body) \<and>
      ac_type p = ''custom'' \<and> ac_country p = country body \<and> ac_email p = email body \<and>
      ac_capabilities p = [(''transfers'', True), (''card_issuing'', True)] \<and>
      (isDemoMode env \<longrightarrow>
         ac_business_type p = Some ''individual'' \<and>
         ac_individual p = Some \<lparr>id_number = ''000000000''\<rparr>) \<and>
      (\<not> isDemoMode env \<longrightarrow> ac_business_type p = None \<and> ac_individual p = None)"
      by (simp add: create_params_eq)
  qed
qed

theorem register_create_account_request_witness:
  "validate (user_schema (sample_env\<lparr>isDemoMode := False\<rparr>)) sample_input False = Inr () \<and>
   find (\<lambda>u. u_email u = email sample_input) (users empty_world) = None \<and>
   \<not> isDemoMode (sample_env\<lparr>isDemoMode := False\<rparr>) \<and>
   (\<exists>rest. calls (snd (register (sample_env\<lparr>isDemoMode := False\<rparr>) sample_input empty_world)) =
      [UserFindFirst ''jenny@example.com'',
       AccountsCreate ''US''
         \<lparr>ac_type = ''custom'', ac_country = ''US'', ac_email = ''jenny@example.com'',
          ac_business_type = None, ac_individual = None,
          ac_capabilities = [(''transfers'', True), (''card_issuing'', True)]\<rparr>] @ rest)"
proof -
  have v: "validate (user_schema (sample_env\<lparr>isDemoMode := False\<rparr>)) sample_input False = Inr ()"
    using sample_input_valid by simp
  have f: "find (\<lambda>u. u_email u = email sample_input) (users empty_world) = None"
    by (simp add: empty_world_def)
  from register_create_account_request
         [of "sample_env\<lparr>isDemoMode := False\<rparr>" sample_input empty_world] v f
  have "\<exists>rest. calls (snd (register (sample_env\<lparr>isDemoMode := False\<rparr>) sample_input empty_world)) =
         calls empty_world @
         [UserFindFirst (email sample_input),
          AccountsCreate (getPlatform (sample_env\<lparr>isDemoMode := False\<rparr>) (country sample_input))
            \<lparr>ac_type = ''custom'', ac_country = country sample_input, ac_email = email sample_input,
             ac_business_type =
               (if isDemoMode (sample_env\<lparr>isDemoMode := False\<rparr>) then Some ''individual'' else None),
             ac_individual =
               (if isDemoMode (sample_env\<lparr>isDemoMode := False\<rparr>)
                then Some \<lparr>id_number = ''000000000''\<rparr> else None),
             ac_capabilities = [(''transfers'', True), (''card_issuing'', True)]\<rparr>] @ rest"
    by blast
  then show ?thesis
    using v f by (simp add: sample_env_def sample_input_def empty_world_def)
qed

section \<open>Claims about the onboarding helpers\<close>

lemma removeAll_as_filter: "removeAll x xs = filter (\<lambda>y. y \<noteq> x) xs"
  by (induction xs) auto

lemma outstanding_Some:
  "outstanding (Some a) =
     (removeAll ''external_account''
        (case acct_requirements a of
           None \<Rightarrow> []
         | Some r \<Rightarrow> (case currently_due r of None \<Rightarrow> [] | Some due \<Rightarrow> due)) \<noteq> [])"
  by (simp add: outstanding_def IGNORE_REQUIREMENTS_def removeAll_as_filter
      split: option.splits)

lemma hasOutstandingRequirements_world:
  "snd (hasOutstandingRequirements env account_id w) =
     \<lparr>users = users w, calls = calls w @ [AccountsRetrieve account_id]\<rparr>"
  by (simp add: hasOutstandingRequirements_def issue_def Let_def split: sum.splits)

lemma hasOutstandingRequirements_result:
  "accounts_retrieve env account_id = Inr account \<Longrightarrow>
   fst (hasOutstandingRequirements env account_id w) = Inr (outstanding account)"
  by (simp add: hasOutstandingRequirements_def Let_def)

text \<open>
  C3. For the account that the provider returns, hasOutstandingRequirements answers whether
  its currently-due list (empty when missing) is non-empty once every "external_account"
  is removed: false when "external_account" is the only entry, true as soon as some other
  requirement is due. Whatever the provider answers, the only call made is the retrieval,
  which is not a mutating call, and the user table is untouched.
\<close>

theorem hasOutstandingRequirements_iff:
  "(accounts_retrieve env account_id = Inr (Some a) \<longrightarrow>
      hasOutstandingRequirements env account_id w =
        (Inr (removeAll ''external_account''
                (case acct_requirements a of
                   None \<Rightarrow> []
                 | Some r \<Rightarrow> (case currently_due r of None \<Rightarrow> [] | Some due \<Rightarrow> due)) \<noteq> []),
         \<lparr>users = users w, calls = calls w @ [AccountsRetrieve account_id]\<rparr>) \<and>
      (acct_requirements a = Some \<lparr>currently_due = Some [''external_account'']\<rparr> \<longrightarrow>
         fst (hasOutstandingRequirements env account_id w) = Inr False) \<and>
      (\<forall>r due x. acct_requirements a = Some r \<and> currently_due r = Some due \<and>
                  x \<in> set due \<and> x \<noteq> ''external_account'' \<longrightarrow>
         fst (hasOutstandingRequirements env account_id w) = Inr True)) \<and>
   users (snd (hasOutstandingRequirements env account_id w)) = users w \<and>
   calls (snd (hasOutstandingRequirements env account_id w)) = calls w @ [AccountsRetrieve account_id] \<and>
   filter mutating (drop (length (calls w)) (calls (snd (hasOutstandingRequirements env account_id w)))) = []"
proof (intro conjI impI)
  assume r: "accounts_retrieve env account_id = Inr (Some a)"
  have res: "fst (hasOutstandingRequirements env account_id w) =
        Inr (removeAll ''external_account''
                (case acct_requirements a of
                   None \<Rightarrow> []
                 | Some r \<Rightarrow> (case currently_due r of None \<Rightarrow> [] | Some due \<Rightarrow> due)) \<noteq> [])"
    using hasOutstandingRequirements_result [OF r] by (simp only: outstanding_Some)
  show "hasOutstandingRequirements env account_id w =
        (Inr (removeAll ''external_account''
                (case acct_requirements a of
                   None \<Rightarrow> []
                 | Some r \<Rightarrow> (case currently_due r of None \<Rightarrow> [] | Some due \<Rightarrow> due)) \<noteq> []),
         \<lparr>users = users w, calls = calls w @ [AccountsRetrieve account_id]\<rparr>)"
    using res hasOutstandingRequirements_world [of env account_id w]
    by (simp add: prod_eq_iff)
  show "acct_requirements a = Some \<lparr>currently_due = Some [''external_account'']\<rparr> \<Longrightarrow>
         fst (hasOutstandingRequirements env account_id w) = Inr False"
    by (simp add: res)
  show "\<forall>r due x. acct_requirements a = Some r \<and> currently_due r = Some due \<and>
                  x \<in> set due \<and> x \<noteq> ''external_account'' \<longrightarrow>
         fst (hasOutstandingRequirements env account_id w) = Inr True"
    by (auto simp: res removeAll_as_filter filter_empty_conv)
next
  show "users (snd (hasOutstandingRequirements env account_id w)) = users w"
    by (simp add: hasOutstandingRequirements_world)
  show "calls (snd (hasOutstandingRequirements env account_id w)) =
          calls w @ [AccountsRetrieve account_id]"
    by (simp add: hasOutstandingRequirements_world)
  show "filter mutating
          (drop (length (calls w)) (calls (snd (hasOutstandingRequirements env account_id w)))) = []"
    by (simp add: hasOutstandingRequirements_world)
qed

theorem hasOutstandingRequirements_iff_witness:
  "accounts_retrieve sample_env ''acct_1'' =
     Inr (Some \<lparr>acct_id = ''acct_1'',
                acct_requirements = Some \<lparr>currently_due = Some [''external_account'']\<rparr>\<rparr>) \<and>
   hasOutstandingRequirements sample_env ''acct_1'' empty_world =
     (Inr False, \<lparr>users = [], calls = [AccountsRetrieve ''acct_1'']\<rparr>) \<and>
   accounts_retrieve
       (sample_env\<lparr>accounts_retrieve := \<lambda>a. Inr (Some \<lparr>acct_id = a,
          acct_requirements =
            Some \<lparr>currently_due = Some [''external_account'', ''individual.dob.day'']\<rparr>\<rparr>)\<rparr>)
       ''acct_1'' =
     Inr (Some \<lparr>acct_id = ''acct_1'',
                acct_requirements =
                  Some \<lparr>currently_due = Some [''external_account'', ''individual.dob.day'']\<rparr>\<rparr>) \<and>
   hasOutstandingRequirements
       (sample_env\<lparr>accounts_retrieve := \<lambda>a. Inr (Some \<lparr>acct_id = a,
          acct_requirements =
            Some \<lparr>currently_due = Some [''external_account'', ''individual.dob.day'']\<rparr>\<rparr>)\<rparr>)
       ''acct_1'' empty_world =
     (Inr True, \<lparr>users = [], calls = [AccountsRetrieve ''acct_1'']\<rparr>)"
proof -
  let ?a1 = "\<lparr>acct_id = ''acct_1'',
              acct_requirements = Some \<lparr>currently_due = Some [''external_account'']\<rparr>\<rparr>"
  let ?a2 = "\<lparr>acct_id = ''acct_1'',
              acct_requirements =
                Some \<lparr>currently_due = Some [''external_account'', ''individual.dob.day'']\<rparr>\<rparr>"
  let ?env2 = "sample_env\<lparr>accounts_retrieve := \<lambda>a. Inr (Some \<lparr>acct_id = a,
          acct_requirements =
            Some \<lparr>currently_due = Some [''external_account'', ''individual.dob.day'']\<rparr>\<rparr>)\<rparr>"
  have r1: "accounts_retrieve sample_env ''acct_1'' = Inr (Some ?a1)"
    by (simp add: sample_env_def)
  have r2: "accounts_retrieve ?env2 ''acct_1'' = Inr (Some ?a2)"
    by simp
  from hasOutstandingRequirements_iff [of sample_env "''acct_1''" ?a1 empty_world] r1
  have h1: "hasOutstandingRequirements sample_env ''acct_1'' empty_world =
              (Inr False, \<lparr>users = [], calls = [AccountsRetrieve ''acct_1'']\<rparr>)"
    by (simp add: empty_world_def)
  from hasOutstandingRequirements_iff [of ?env2 "''acct_1''" ?a2 empty_world] r2
  have h2: "hasOutstandingRequirements ?env2 ''acct_1'' empty_world =
              (Inr True, \<lparr>users = [], calls = [AccountsRetrieve ''acct_1'']\<rparr>)"
    by (simp add: empty_world_def)
  show ?thesis
    using r1 r2 h1 h2 by blast
qed

text \<open>
  C10. When the returned account has no requirements object, or a requirements object
  without a currently-due list (or when no account object comes back at all), the optional
  chain yields nothing, the default 0 applies and hasOutstandingRequirements returns false
  instead of failing.
\<close>

theorem hasOutstandingRequirements_absent:
  "(accounts_retrieve env account_id = Inr (Some a) \<and>
    (acct_requirements a = None \<or>
     (\<exists>r. acct_requirements a = Some r \<and> currently_due r = None)) \<longrightarrow>
      fst (hasOutstandingRequirements env account_id w) = Inr False) \<and>
   (accounts_retrieve env account_id = Inr None \<longrightarrow>
      fst (hasOutstandingRequirements env account_id w) = Inr False)"
  by (auto simp: hasOutstandingRequirements_result outstanding_def)

theorem hasOutstandingRequirements_absent_witness:
  "accounts_retrieve
       (sample_env\<lparr>accounts_retrieve :=
          \<lambda>a. Inr (Some \<lparr>acct_id = a, acct_requirements = None\<rparr>)\<rparr>) ''acct_1'' =
     Inr (Some \<lparr>acct_id = ''acct_1'', acct_requirements = None\<rparr>) \<and>
   fst (hasOutstandingRequirements
          (sample_env\<lparr>accounts_retrieve :=
             \<lambda>a. Inr (Some \<lparr>acct_id = a, acct_requirements = None\<rparr>)\<rparr>) ''acct_1'' empty_world) =
     Inr False \<and>
   accounts_retrieve
       (sample_env\<lparr>accounts_retrieve :=
          \<lambda>a. Inr (Some \<lparr>acct_id = a,
                           acct_requirements = Some \<lparr>currently_due = None\<rparr>\<rparr>)\<rparr>) ''acct_1'' =
     Inr (Some \<lparr>acct_id = ''acct_1'', acct_requirements = Some \<lparr>currently_due = None\<rparr>\<rparr>) \<and>
   fst (hasOutstandingRequirements
          (sample_env\<lparr>accounts_retrieve :=
             \<lambda>a. Inr (Some \<lparr>acct_id = a,
                              acct_requirements = Some \<lparr>currently_due = None\<rparr>\<rparr>)\<rparr>)
          ''acct_1'' empty_world) =
     Inr False"
proof -
  let ?env1 = "sample_env\<lparr>accounts_retrieve :=
                 \<lambda>a. Inr (Some \<lparr>acct_id = a, acct_requirements = None\<rparr>)\<rparr>"
  let ?env2 = "sample_env\<lparr>accounts_retrieve :=
                 \<lambda>a. Inr (Some \<lparr>acct_id = a,
                                  acct_requirements = Some \<lparr>currently_due = None\<rparr>\<rparr>)\<rparr>"
  have r1: "accounts_retrieve ?env1 ''acct_1'' =
              Inr (Some \<lparr>acct_id = ''acct_1'', acct_requirements = None\<rparr>)"
    by simp
  have r2: "accounts_retrieve ?env2 ''acct_1'' =
              Inr (Some \<lparr>acct_id = ''acct_1'',
                         acct_requirements = Some \<lparr>currently_due = None\<rparr>\<rparr>)"
    by simp
  from hasOutstandingRequirements_absent
         [of ?env1 "''acct_1''" "\<lparr>acct_id = ''acct_1'', acct_requirements = None\<rparr>" empty_world] r1
  have h1: "fst (hasOutstandingRequirements ?env1 ''acct_1'' empty_world) = Inr False"
    by simp
  from hasOutstandingRequirements_absent
         [of ?env2 "''acct_1''"
             "\<lparr>acct_id = ''acct_1'', acct_requirements = Some \<lparr>currently_due = None\<rparr>\<rparr>"
             empty_world] r2
  have h2: "fst (hasOutstandingRequirements ?env2 ''acct_1'' empty_world) = Inr False"
    by simp
  show ?thesis
    using r1 r2 h1 h2 by blast
qed

text \<open>
  C6. Without CONNECT_ONBOARDING_REDIRECT_URL, createAccountOnboardingUrl throws
  "CONNECT_ONBOARDING_REDIRECT_URL is not set" and the world is as before: no account link
  has been requested. With the variable set, it requests one account link of type
  "account_onboarding" for the given account, with refresh and return URLs built from the
  variable, and returns the URL of the link the provider answers with (an error of the
  provider is thrown on).
\<close>

theorem createAccountOnboardingUrl_config:
  "(CONNECT_ONBOARDING_REDIRECT_URL env = None \<longrightarrow>
      createAccountOnboardingUrl env account_id w =
        (Inl ''CONNECT_ONBOARDING_REDIRECT_URL is not set'', w)) \<and>
   (CONNECT_ONBOARDING_REDIRECT_URL env = Some base \<longrightarrow>
      snd (createAccountOnboardingUrl env account_id w) =
        \<lparr>users = users w,
         calls = calls w @
           [AccountLinksCreate
              \<lparr>link_type = ''account_onboarding'', link_account = account_id,
               refresh_url = base @ ''/onboard'', return_url = base @ ''/''\<rparr>]\<rparr> \<and>
      (\<forall>link_url.
         accountLinks_create env
           \<lparr>link_type = ''account_onboarding'', link_account = account_id,
            refresh_url = base @ ''/onboard'', return_url = base @ ''/''\<rparr> = Inr link_url \<longrightarrow>
         fst (createAccountOnboardingUrl env account_id w) = Inr link_url) \<and>
      (\<forall>e.
         accountLinks_create env
           \<lparr>link_type = ''account_onboarding'', link_account = account_id,
            refresh_url = base @ ''/onboard'', return_url = base @ ''/''\<rparr> = Inl e \<longrightarrow>
         fst (createAccountOnboardingUrl env account_id w) = Inl e))"
  by (auto simp: createAccountOnboardingUrl_def issue_def Let_def split: sum.splits)

theorem createAccountOnboardingUrl_config_witness:
  "CONNECT_ONBOARDING_REDIRECT_URL (sample_env\<lparr>CONNECT_ONBOARDING_REDIRECT_URL := None\<rparr>) = None \<and>
   createAccountOnboardingUrl (sample_env\<lparr>CONNECT_ONBOARDING_REDIRECT_URL := None\<rparr>)
       \<lparr>accountId = ''acct_1'', platform = ''US''\<rparr> empty_world =
     (Inl ''CONNECT_ONBOARDING_REDIRECT_URL is not set'', empty_world) \<and>
   CONNECT_ONBOARDING_REDIRECT_URL sample_env = Some ''http://localhost:3000'' \<and>
   createAccountOnboardingUrl sample_env \<lparr>accountId = ''acct_1'', platform = ''US''\<rparr> empty_world =
     (Inr ''https://connect.stripe.com/setup/acct_1'',
      \<lparr>users = [],
       calls = [AccountLinksCreate
                  \<lparr>link_type = ''account_onboarding'',
                   link_account = \<lparr>accountId = ''acct_1'', platform = ''US''\<rparr>,
                   refresh_url = ''http://localhost:3000/onboard'',
                   return_url = ''http://localhost:3000/''\<rparr>]\<rparr>)"
proof -
  let ?env0 = "sample_env\<lparr>CONNECT_ONBOARDING_REDIRECT_URL := None\<rparr>"
  let ?acct = "\<lparr>accountId = ''acct_1'', platform = ''US''\<rparr>"
  have c0: "CONNECT_ONBOARDING_REDIRECT_URL ?env0 = None"
    by simp
  have c1: "CONNECT_ONBOARDING_REDIRECT_URL sample_env = Some ''http://localhost:3000''"
    by (simp add: sample_env_def)
  have l: "accountLinks_create sample_env
             \<lparr>link_type = ''account_onboarding'', link_account = ?acct,
              refresh_url = ''http://localhost:3000'' @ ''/onboard'',
              return_url = ''http://localhost:3000'' @ ''/''\<rparr> =
           Inr ''https://connect.stripe.com/setup/acct_1''"
    by (simp add: sample_env_def)
  from createAccountOnboardingUrl_config
         [where env = ?env0 and account_id = ?acct and w = empty_world] c0
  have h0: "createAccountOnboardingUrl ?env0 ?acct empty_world =
              (Inl ''CONNECT_ONBOARDING_REDIRECT_URL is not set'', empty_world)"
    by blast
  from createAccountOnboardingUrl_config
         [where env = sample_env and base = "''http://localhost:3000''" and account_id = ?acct
            and w = empty_world]
       c1 l
  have h1: "snd (createAccountOnboardingUrl sample_env ?acct empty_world) =
        \<lparr>users = users empty_world,
         calls = calls empty_world @
           [AccountLinksCreate
              \<lparr>link_type = ''account_onboarding'', link_account = ?acct,
               refresh_url = ''http://localhost:3000'' @ ''/onboard'',
               return_url = ''http://localhost:3000'' @ ''/''\<rparr>]\<rparr> \<and>
        fst (createAccountOnboardingUrl sample_env ?acct empty_world) =
          Inr ''https://connect.stripe.com/setup/acct_1''"
    by blast
  then have "createAccountOnboardingUrl sample_env ?acct empty_world =
     (Inr ''https://connect.stripe.com/setup/acct_1'',
      \<lparr>users = [],
       calls = [AccountLinksCreate
                  \<lparr>link_type = ''account_onboarding'', link_account = ?acct,
                   refresh_url = ''http://localhost:3000/onboard'',
                   return_url = ''http://localhost:3000/''\<rparr>]\<rparr>)"
    by (simp add: prod_eq_iff empty_world_def)
  with c0 c1 h0 show ?thesis
    by blast
qed

section \<open>The paths through onboard\<close>


lemma issue_eq: "issue c w = \<lparr>users = users w, calls = calls w @ [c]\<rparr>"
  by (simp add: issue_def)

lemma onboardingData_demo:
  "isDemoMode env \<Longrightarrow>
   onboardingData env sess body =
     \<lparr>up_business_profile =
        \<lparr>bp_name = businessName body, mcc = Some ''5734'',
         product_description = Some ''Some demo product'',
         url = Some ''https://some-company.com''\<rparr>,
      up_business_type = Some ''individual'',
      up_company = Some \<lparr>co_name = businessName body, tax_id = ''000000000''\<rparr>,
      up_individual =
        Some \<lparr>ind_address =
                \<lparr>line1 = ''address_full_match'',
                 city = (if s_country sess = ''GB'' then Some ''London''
                         else if s_country sess = ''US'' then Some ''South San Francisco''
                         else None),
                 state = (if s_country sess = ''US'' then Some ''CA'' else None),
                 postal_code = (if s_country sess = ''GB'' then Some ''WC32 4AP''
                                else if s_country sess = ''US'' then Some ''94080''
                                else None),
                 addr_country = s_country sess\<rparr>,
              ind_dob = \<lparr>day = 1, month = 1, year = 1901\<rparr>,
              ind_email = s_email sess, first_name = ''John'', last_name = ''Smith'',
              phone = ''2015550123''\<rparr>,
      up_tos_acceptance =
        (if skipOnboarding body = Some True then Some (TOS_ACCEPTANCE env) else None),
      up_settings =
        Some \<lparr>card_issuing = \<lparr>ci_tos_acceptance = TOS_ACCEPTANCE env\<rparr>,
              treasury =
                (if financialProduct sess = EmbeddedFinance
                 then Some \<lparr>tr_tos_acceptance = TOS_ACCEPTANCE env\<rparr>
                 else None)\<rparr>\<rparr>"
  by (simp add: onboardingData_def Let_def)

lemma onboardingData_plain:
  "\<not> isDemoMode env \<Longrightarrow>
   onboardingData env sess body =
     \<lparr>up_business_profile =
        \<lparr>bp_name = businessName body, mcc = None, product_description = None, url = None\<rparr>,
      up_business_type = None, up_company = None, up_individual = None,
      up_tos_acceptance = None, up_settings = None\<rparr>"
  by (simp add: onboardingData_def Let_def)

lemma onboard_invalid:
  "validate (if isDemoMode env then business_withOnbardingSkip env else business_default env)
     body False = Inl e \<Longrightarrow>
   onboard env sess body w =
     (Response 400 \<lparr>success = False, data = None, error = Some (message e)\<rparr>, w)"
  by (simp add: onboard_def Let_def)

lemma onboard_update_error:
  "validate (if isDemoMode env then business_withOnbardingSkip env else business_default env)
     body False = Inr u \<Longrightarrow>
   accounts_update env (platform (s_stripeAccount sess)) (accountId (s_stripeAccount sess))
     (onboardingData env sess body) = Inl e \<Longrightarrow>
   onboard env sess body w =
     (Thrown e,
      \<lparr>users = users w,
       calls = calls w @
         [AccountsUpdate (platform (s_stripeAccount sess)) (accountId (s_stripeAccount sess))
            (onboardingData env sess body)]\<rparr>)"
  by (simp add: onboard_def Let_def issue_def)

lemma onboard_bypass:
  "validate (if isDemoMode env then business_withOnbardingSkip env else business_default env)
     body False = Inr u \<Longrightarrow>
   accounts_update env (platform (s_stripeAccount sess)) (accountId (s_stripeAccount sess))
     (onboardingData env sess body) = Inr acct \<Longrightarrow>
   isDemoMode env \<and> skipOnboarding body = Some True \<Longrightarrow>
   onboard env sess body w =
     (Response 200 \<lparr>success = True, data = Some \<lparr>redirectUrl = ''/''\<rparr>, error = None\<rparr>,
      \<lparr>users = users w,
       calls = calls w @
         [AccountsUpdate (platform (s_stripeAccount sess)) (accountId (s_stripeAccount sess))
            (onboardingData env sess body)]\<rparr>)"
  by (simp add: onboard_def Let_def issue_def)

lemma onboard_hosted:
  "validate (if isDemoMode env then business_withOnbardingSkip env else business_default env)
     body False = Inr u \<Longrightarrow>
   accounts_update env (platform (s_stripeAccount sess)) (accountId (s_stripeAccount sess))
     (onboardingData env sess body) = Inr acct \<Longrightarrow>
   \<not> (isDemoMode env \<and> skipOnboarding body = Some True) \<Longrightarrow>
   onboard env sess body w =
     (case createAccountOnboardingUrl env (s_stripeAccount sess)
             \<lparr>users = users w,
              calls = calls w @
                [AccountsUpdate (platform (s_stripeAccount sess))
                   (accountId (s_stripeAccount sess)) (onboardingData env sess body)]\<rparr> of
        (Inl e, w2) \<Rightarrow> (Thrown e, w2)
      | (Inr onboardingUrl, w2) \<Rightarrow>
          (Response 200
             \<lparr>success = True, data = Some \<lparr>redirectUrl = onboardingUrl\<rparr>, error = None\<rparr>, w2))"
  by (auto simp: onboard_def Let_def issue_eq)

lemma createAccountOnboardingUrl_cases:
  "createAccountOnboardingUrl env a w =
     (case CONNECT_ONBOARDING_REDIRECT_URL env of
        None \<Rightarrow> (Inl ''CONNECT_ONBOARDING_REDIRECT_URL is not set'', w)
      | Some base \<Rightarrow>
          (accountLinks_create env
             \<lparr>link_type = ''account_onboarding'', link_account = a,
              refresh_url = base @ ''/onboard'', return_url = base @ ''/''\<rparr>,
           \<lparr>users = users w,
            calls = calls w @
              [AccountLinksCreate
                 \<lparr>link_type = ''account_onboarding'', link_account = a,
                  refresh_url = base @ ''/onboard'', return_url = base @ ''/''\<rparr>]\<rparr>))"
  by (simp add: createAccountOnboardingUrl_def Let_def issue_def split: option.splits sum.splits)

lemma onboard_hosted_ok:
  assumes "validate (if isDemoMode env then business_withOnbardingSkip env else business_default env)
     body False = Inr u"
   and "accounts_update env (platform (s_stripeAccount sess)) (accountId (s_stripeAccount sess))
     (onboardingData env sess body) = Inr acct"
   and "\<not> (isDemoMode env \<and> skipOnboarding body = Some True)"
   and "CONNECT_ONBOARDING_REDIRECT_URL env = Some base"
   and "accountLinks_create env
             \<lparr>link_type = ''account_onboarding'', link_account = s_stripeAccount sess,
              refresh_url = base @ ''/onboard'', return_url = base @ ''/''\<rparr> = Inr link_url"
  shows "onboard env sess body w =
     (Response 200 \<lparr>success = True, data = Some \<lparr>redirectUrl = link_url\<rparr>, error = None\<rparr>,
      \<lparr>users = users w,
       calls = calls w @
         [AccountsUpdate (platform (s_stripeAccount sess)) (accountId (s_stripeAccount sess))
            (onboardingData env sess body),
          AccountLinksCreate
             \<lparr>link_type = ''account_onboarding'', link_account = s_stripeAccount sess,
              refresh_url = base @ ''/onboard'', return_url = base @ ''/''\<rparr>]\<rparr>)"
  using assms(3,4,5)
  by (simp add: onboard_hosted [OF assms(1,2,3)] createAccountOnboardingUrl_cases)

lemma onboard_200:
  assumes "fst (onboard env sess body w) = Response 200 r"
  shows "validate (if isDemoMode env then business_withOnbardingSkip env else business_default env)
           body False = Inr () \<and>
         (\<exists>acct. accounts_update env (platform (s_stripeAccount sess))
                   (accountId (s_stripeAccount sess)) (onboardingData env sess body) = Inr acct) \<and>
         (if isDemoMode env \<and> skipOnboarding body = Some True
          then r = \<lparr>success = True, data = Some \<lparr>redirectUrl = ''/''\<rparr>, error = None\<rparr> \<and>
               drop (length (calls w)) (calls (snd (onboard env sess body w))) =
                 [AccountsUpdate (platform (s_stripeAccount sess))
                    (accountId (s_stripeAccount sess)) (onboardingData env sess body)]
          else (\<exists>l link_url.
                  drop (length (calls w)) (calls (snd (onboard env sess body w))) =
                    [AccountsUpdate (platform (s_stripeAccount sess))
                       (accountId (s_stripeAccount sess)) (onboardingData env sess body),
                     AccountLinksCreate l] \<and>
                  accountLinks_create env l = Inr link_url \<and>
                  r = \<lparr>success = True, data = Some \<lparr>redirectUrl = link_url\<rparr>, error = None\<rparr>))"
proof (cases "validate (if isDemoMode env then business_withOnbardingSkip env else business_default env) body False")
  case (Inl e)
  with assms show ?thesis by (simp add: onboard_invalid)
next
  case (Inr u)
  note v = this
  show ?thesis
  proof (cases "accounts_update env (platform (s_stripeAccount sess))
                   (accountId (s_stripeAccount sess)) (onboardingData env sess body)")
    case (Inl e)
    with assms v show ?thesis by (simp add: onboard_update_error)
  next
    case (Inr acct)
    note a = this
    show ?thesis
    proof (cases "isDemoMode env \<and> skipOnboarding body = Some True")
      case True
      with assms v a show ?thesis
        using onboard_bypass [OF v a True, of w] by simp
    next
      case False
      with assms v a show ?thesis
        using onboard_hosted [OF v a False, of w]
        by (auto simp: createAccountOnboardingUrl_cases split: option.splits sum.splits)
    qed
  qed
qed


lemma onboard_update_calls:
  assumes "AccountsUpdate p a d \<in> set (drop (length (calls w)) (calls (snd (onboard env sess body w))))"
  shows "d = onboardingData env sess body"
proof (cases "validate (if isDemoMode env then business_withOnbardingSkip env else business_default env) body False")
  case (Inl e)
  with assms show ?thesis by (simp add: onboard_invalid)
next
  case (Inr u)
  note v = this
  show ?thesis
  proof (cases "accounts_update env (platform (s_stripeAccount sess))
                   (accountId (s_stripeAccount sess)) (onboardingData env sess body)")
    case (Inl e)
    with assms v show ?thesis by (simp add: onboard_update_error)
  next
    case (Inr acct)
    note a = this
    show ?thesis
    proof (cases "isDemoMode env \<and> skipOnboarding body = Some True")
      case True
      with assms v a show ?thesis
        using onboard_bypass [OF v a True, of w] by simp
    next
      case False
      with assms v a show ?thesis
        using onboard_hosted [OF v a False, of w]
        by (auto simp: createAccountOnboardingUrl_cases split: option.splits sum.splits)
    qed
  qed
qed

lemma onboard_submits:
  assumes "validate (if isDemoMode env then business_withOnbardingSkip env else business_default env)
             body False = Inr u"
  shows "\<exists>rest. calls (snd (onboard env sess body w)) =
           calls w @
           AccountsUpdate (platform (s_stripeAccount sess)) (accountId (s_stripeAccount sess))
             (onboardingData env sess body) # rest"
proof (cases "accounts_update env (platform (s_stripeAccount sess))
                   (accountId (s_stripeAccount sess)) (onboardingData env sess body)")
  case (Inl e)
  with assms show ?thesis by (simp add: onboard_update_error)
next
  case (Inr acct)
  note a = this
  show ?thesis
  proof (cases "isDemoMode env \<and> skipOnboarding body = Some True")
    case True
    show ?thesis
      using onboard_bypass [OF assms a True, of w] by simp
  next
    case False
    show ?thesis
      using onboard_hosted [OF assms a False, of w]
      by (auto simp: createAccountOnboardingUrl_cases split: option.splits sum.splits)
  qed
qed

lemma sample_business_valid:
  "validate (if isDemoMode sample_env then business_withOnbardingSkip sample_env
             else business_default sample_env) (sample_business\<lparr>skipOnboarding := s\<rparr>) False = Inr ()"
  by (simp add: validate_Inr_iff failures_def sample_env_def sample_business_def required_def)

lemma sample_onboard:
  "onboard sample_env sample_session sample_business empty_world =
     (Response 200
        \<lparr>success = True, data = Some \<lparr>redirectUrl = ''https://connect.stripe.com/setup/acct_1''\<rparr>,
         error = None\<rparr>,
      \<lparr>users = [],
       calls = [AccountsUpdate ''US'' ''acct_1''
                  (onboardingData sample_env sample_session sample_business),
                AccountLinksCreate
                  \<lparr>link_type = ''account_onboarding'',
                   link_account = \<lparr>accountId = ''acct_1'', platform = ''US''\<rparr>,
                   refresh_url = ''http://localhost:3000/onboard'',
                   return_url = ''http://localhost:3000/''\<rparr>]\<rparr>)"
proof -
  have v: "validate (if isDemoMode sample_env then business_withOnbardingSkip sample_env
             else business_default sample_env) sample_business False = Inr ()"
    using sample_business_valid [of None] by (simp add: sample_business_def)
  have a: "accounts_update sample_env (platform (s_stripeAccount sample_session))
             (accountId (s_stripeAccount sample_session))
             (onboardingData sample_env sample_session sample_business) =
           Inr \<lparr>acct_id = ''acct_1'', acct_requirements = None\<rparr>"
    by (simp add: sample_env_def sample_session_def)
  have n: "\<not> (isDemoMode sample_env \<and> skipOnboarding sample_business = Some True)"
    by (simp add: sample_business_def)
  have c: "CONNECT_ONBOARDING_REDIRECT_URL sample_env = Some ''http://localhost:3000''"
    by (simp add: sample_env_def)
  have l: "accountLinks_create sample_env
             \<lparr>link_type = ''account_onboarding'', link_account = s_stripeAccount sample_session,
              refresh_url = ''http://localhost:3000'' @ ''/onboard'',
              return_url = ''http://localhost:3000'' @ ''/''\<rparr> =
           Inr ''https://connect.stripe.com/setup/acct_1''"
    by (simp add: sample_env_def sample_session_def)
  show ?thesis
    using onboard_hosted_ok [OF v a n c l, of empty_world]
    by (simp add: empty_world_def sample_session_def)
qed

lemma sample_onboardingData:
  "onboardingData sample_env sample_session sample_business =
     \<lparr>up_business_profile =
        \<lparr>bp_name = ''Acme'', mcc = Some ''5734'',
         product_description = Some ''Some demo product'',
         url = Some ''https://some-company.com''\<rparr>,
      up_business_type = Some ''individual'',
      up_company = Some \<lparr>co_name = ''Acme'', tax_id = ''000000000''\<rparr>,
      up_individual =
        Some \<lparr>ind_address =
                \<lparr>line1 = ''address_full_match'', city = Some ''South San Francisco'',
                 state = Some ''CA'', postal_code = Some ''94080'', addr_country = ''US''\<rparr>,
              ind_dob = \<lparr>day = 1, month = 1, year = 1901\<rparr>,
              ind_email = ''jenny@example.com'', first_name = ''John'', last_name = ''Smith'',
              phone = ''2015550123''\<rparr>,
      up_tos_acceptance = None,
      up_settings =
        Some \<lparr>card_issuing =
                \<lparr>ci_tos_acceptance = \<lparr>tos_date = 1691518261, tos_ip = ''127.0.0.1''\<rparr>\<rparr>,
              treasury =
                Some \<lparr>tr_tos_acceptance = \<lparr>tos_date = 1691518261, tos_ip = ''127.0.0.1''\<rparr>\<rparr>\<rparr>\<rparr>"
proof -
  have "isDemoMode sample_env"
    by (simp add: sample_env_def)
  then show ?thesis
    by (simp add: onboardingData_demo sample_session_def sample_business_def)
       (simp add: sample_env_def)
qed

lemma onboard_submits_mem:
  assumes "validate (if isDemoMode env then business_withOnbardingSkip env else business_default env)
             body False = Inr u"
  shows "AccountsUpdate (platform (s_stripeAccount sess)) (accountId (s_stripeAccount sess))
           (onboardingData env sess body)
         \<in> set (drop (length (calls w)) (calls (snd (onboard env sess body w))))"
  using onboard_submits [OF assms, of sess w] by auto

section \<open>Claims about onboard\<close>

text \<open>
  C4, as stated, fails: in demo mode with skipOnboarding absent, the payload that onboard
  submits has no terms-of-service acceptance at the account root but does carry the one in
  the card-issuing settings and, for an Embedded Finance session, the one in the treasury
  settings.
\<close>

theorem onboard_tos_without_skip_counterexample:
  "isDemoMode sample_env \<and> skipOnboarding sample_business = None \<and>
   financialProduct sample_session = EmbeddedFinance \<and>
   calls (snd (onboard sample_env sample_session sample_business empty_world)) =
     [AccountsUpdate ''US'' ''acct_1''
        \<lparr>up_business_profile =
           \<lparr>bp_name = ''Acme'', mcc = Some ''5734'',
            product_description = Some ''Some demo product'',
            url = Some ''https://some-company.com''\<rparr>,
         up_business_type = Some ''individual'',
         up_company = Some \<lparr>co_name = ''Acme'', tax_id = ''000000000''\<rparr>,
         up_individual =
           Some \<lparr>ind_address =
                   \<lparr>line1 = ''address_full_match'', city = Some ''South San Francisco'',
                    state = Some ''CA'', postal_code = Some ''94080'', addr_country = ''US''\<rparr>,
                 ind_dob = \<lparr>day = 1, month = 1, year = 1901\<rparr>,
                 ind_email = ''jenny@example.com'', first_name = ''John'', last_name = ''Smith'',
                 phone = ''2015550123''\<rparr>,
         up_tos_acceptance = None,
         up_settings =
           Some \<lparr>card_issuing =
                   \<lparr>ci_tos_acceptance = \<lparr>tos_date = 1691518261, tos_ip = ''127.0.0.1''\<rparr>\<rparr>,
                 treasury =
                   Some \<lparr>tr_tos_acceptance =
                           \<lparr>tos_date = 1691518261, tos_ip = ''127.0.0.1''\<rparr>\<rparr>\<rparr>\<rparr>,
      AccountLinksCreate
        \<lparr>link_type = ''account_onboarding'',
         link_account = \<lparr>accountId = ''acct_1'', platform = ''US''\<rparr>,
         refresh_url = ''http://localhost:3000/onboard'',
         return_url = ''http://localhost:3000/''\<rparr>]"
  by (simp add: sample_onboard sample_onboardingData)
     (simp add: sample_env_def sample_business_def sample_session_def)

text \<open>
  C4, amended. In demo mode, every account update that onboard submits carries the
  terms-of-service acceptance at the account root exactly when skipOnboarding is true;
  the acceptance in the card-issuing settings is always there, and the one in the
  treasury settings exactly when the session's financial product is Embedded Finance,
  whether or not skipOnboarding is requested. A request that passes validation does
  submit such an update.
\<close>

theorem onboard_tos_acceptance:
  "(\<forall>p a d. isDemoMode env \<and>
             AccountsUpdate p a d
               \<in> set (drop (length (calls w)) (calls (snd (onboard env sess body w)))) \<longrightarrow>
      up_tos_acceptance d =
        (if skipOnboarding body = Some True then Some (TOS_ACCEPTANCE env) else None) \<and>
      up_settings d =
        Some \<lparr>card_issuing = \<lparr>ci_tos_acceptance = TOS_ACCEPTANCE env\<rparr>,
              treasury =
                (if financialProduct sess = EmbeddedFinance
                 then Some \<lparr>tr_tos_acceptance = TOS_ACCEPTANCE env\<rparr>
                 else None)\<rparr>) \<and>
   (validate (if isDemoMode env then business_withOnbardingSkip env else business_default env)
      body False = Inr () \<longrightarrow>
      (\<exists>d rest. calls (snd (onboard env sess body w)) =
         calls w @
         AccountsUpdate (platform (s_stripeAccount sess)) (accountId (s_stripeAccount sess)) d # rest))"
proof (rule conjI)
  show "\<forall>p a d. isDemoMode env \<and>
             AccountsUpdate p a d
               \<in> set (drop (length (calls w)) (calls (snd (onboard env sess body w)))) \<longrightarrow>
      up_tos_acceptance d =
        (if skipOnboarding body = Some True then Some (TOS_ACCEPTANCE env) else None) \<and>
      up_settings d =
        Some \<lparr>card_issuing = \<lparr>ci_tos_acceptance = TOS_ACCEPTANCE env\<rparr>,
              treasury =
                (if financialProduct sess = EmbeddedFinance
                 then Some \<lparr>tr_tos_acceptance = TOS_ACCEPTANCE env\<rparr>
                 else None)\<rparr>"
  proof (intro allI impI)
    fix p a d
    assume h: "isDemoMode env \<and>
             AccountsUpdate p a d
               \<in> set (drop (length (calls w)) (calls (snd (onboard env sess body w))))"
    then have "d = onboardingData env sess body"
      using onboard_update_calls by blast
    with h show "up_tos_acceptance d =
        (if skipOnboarding body = Some True then Some (TOS_ACCEPTANCE env) else None) \<and>
      up_settings d =
        Some \<lparr>card_issuing = \<lparr>ci_tos_acceptance = TOS_ACCEPTANCE env\<rparr>,
              treasury =
                (if financialProduct sess = EmbeddedFinance
                 then Some \<lparr>tr_tos_acceptance = TOS_ACCEPTANCE env\<rparr>
                 else None)\<rparr>"
      by (simp add: onboardingData_demo)
  qed
next
  show "validate (if isDemoMode env then business_withOnbardingSkip env else business_default env)
      body False = Inr () \<longrightarrow>
      (\<exists>d rest. calls (snd (onboard env sess body w)) =
         calls w @
         AccountsUpdate (platform (s_stripeAccount sess)) (accountId (s_stripeAccount sess)) d # rest)"
    using onboard_submits [of env body "()" sess w] by blast
qed

theorem onboard_tos_acceptance_witness:
  "isDemoMode sample_env \<and>
   validate (if isDemoMode sample_env then business_withOnbardingSkip sample_env
             else business_default sample_env) sample_business False = Inr () \<and>
   AccountsUpdate ''US'' ''acct_1'' (onboardingData sample_env sample_session sample_business)
     \<in> set (drop (length (calls empty_world))
              (calls (snd (onboard sample_env sample_session sample_business empty_world)))) \<and>
   up_tos_acceptance (onboardingData sample_env sample_session sample_business) = None \<and>
   up_settings (onboardingData sample_env sample_session sample_business) =
     Some \<lparr>card_issuing =
             \<lparr>ci_tos_acceptance = \<lparr>tos_date = 1691518261, tos_ip = ''127.0.0.1''\<rparr>\<rparr>,
           treasury =
             Some \<lparr>tr_tos_acceptance = \<lparr>tos_date = 1691518261, tos_ip = ''127.0.0.1''\<rparr>\<rparr>\<rparr>"
proof -
  have d: "isDemoMode sample_env"
    by (simp add: sample_env_def)
  have v: "validate (if isDemoMode sample_env then business_withOnbardingSkip sample_env
             else business_default sample_env) sample_business False = Inr ()"
    using sample_business_valid [of None] by (simp add: sample_business_def)
  have m: "AccountsUpdate ''US'' ''acct_1'' (onboardingData sample_env sample_session sample_business)
     \<in> set (drop (length (calls empty_world))
              (calls (snd (onboard sample_env sample_session sample_business empty_world))))"
    unfolding sample_onboard by (simp add: empty_world_def)
  from onboard_tos_acceptance [of sample_env empty_world sample_session sample_business] d m
  have "up_tos_acceptance (onboardingData sample_env sample_session sample_business) =
        (if skipOnboarding sample_business = Some True then Some (TOS_ACCEPTANCE sample_env) else None) \<and>
      up_settings (onboardingData sample_env sample_session sample_business) =
        Some \<lparr>card_issuing = \<lparr>ci_tos_acceptance = TOS_ACCEPTANCE sample_env\<rparr>,
              treasury =
                (if financialProduct sample_session = EmbeddedFinance
                 then Some \<lparr>tr_tos_acceptance = TOS_ACCEPTANCE sample_env\<rparr>
                 else None)\<rparr>"
    by blast
  then have "up_tos_acceptance (onboardingData sample_env sample_session sample_business) = None \<and>
   up_settings (onboardingData sample_env sample_session sample_business) =
     Some \<lparr>card_issuing =
             \<lparr>ci_tos_acceptance = \<lparr>tos_date = 1691518261, tos_ip = ''127.0.0.1''\<rparr>\<rparr>,
           treasury =
             Some \<lparr>tr_tos_acceptance = \<lparr>tos_date = 1691518261, tos_ip = ''127.0.0.1''\<rparr>\<rparr>\<rparr>"
    by (simp add: sample_business_def sample_session_def sample_env_def)
  with d v m show ?thesis
    by blast
qed

text \<open>
  C8. Every account update that onboard submits has business_profile.name equal to the
  submitted business name, in demo mode and outside it. In demo mode it also carries the
  synthetic individual: address line1 "address_full_match", date of birth 1901-01-01, the
  e-mail of the session, the session's country code, and locality fields only for the
  two recognised countries (city, state and postal code for US; city and postal code for
  GB; none of the three for any other country). Outside demo mode there is no individual,
  company or business type in the payload. A request that passes validation does submit
  such an update.
\<close>

theorem onboard_payload_profile:
  "(\<forall>p a d. AccountsUpdate p a d
               \<in> set (drop (length (calls w)) (calls (snd (onboard env sess body w)))) \<longrightarrow>
      bp_name (up_business_profile d) = businessName body \<and>
      (isDemoMode env \<longrightarrow>
         (\<exists>ind. up_individual d = Some ind \<and>
            line1 (ind_address ind) = ''address_full_match'' \<and>
            ind_dob ind = \<lparr>day = 1, month = 1, year = 1901\<rparr> \<and>
            ind_email ind = s_email sess \<and>
            addr_country (ind_address ind) = s_country sess \<and>
            (s_country sess = ''US'' \<longrightarrow>
               city (ind_address ind) = Some ''South San Francisco'' \<and>
               state (ind_address ind) = Some ''CA'' \<and>
               postal_code (ind_address ind) = Some ''94080'') \<and>
            (s_country sess = ''GB'' \<longrightarrow>
               city (ind_address ind) = Some ''London'' \<and>
               state (ind_address ind) = None \<and>
               postal_code (ind_address ind) = Some ''WC32 4AP'') \<and>
            (s_country sess \<noteq> ''US'' \<and> s_country sess \<noteq> ''GB'' \<longrightarrow>
               city (ind_address ind) = None \<and>
               state (ind_address ind) = None \<and>
               postal_code (ind_address ind) = None))) \<and>
      (\<not> isDemoMode env \<longrightarrow>
         up_individual d = None \<and> up_company d = None \<and> up_business_type d = None)) \<and>
   (validate (if isDemoMode env then business_withOnbardingSkip env else business_default env)
      body False = Inr () \<longrightarrow>
      (\<exists>d rest. calls (snd (onboard env sess body w)) =
         calls w @
         AccountsUpdate (platform (s_stripeAccount sess)) (accountId (s_stripeAccount sess)) d # rest))"
proof (rule conjI)
  show "\<forall>p a d. AccountsUpdate p a d
               \<in> set (drop (length (calls w)) (calls (snd (onboard env sess body w)))) \<longrightarrow>
      bp_name (up_business_profile d) = businessName body \<and>
      (isDemoMode env \<longrightarrow>
         (\<exists>ind. up_individual d = Some ind \<and>
            line1 (ind_address ind) = ''address_full_match'' \<and>
            ind_dob ind = \<lparr>day = 1, month = 1, year = 1901\<rparr> \<and>
            ind_email ind = s_email sess \<and>
            addr_country (ind_address ind) = s_country sess \<and>
            (s_country sess = ''US'' \<longrightarrow>
               city (ind_address ind) = Some ''South San Francisco'' \<and>
               state (ind_address ind) = Some ''CA'' \<and>
               postal_code (ind_address ind) = Some ''94080'') \<and>
            (s_country sess = ''GB'' \<longrightarrow>
               city (ind_address ind) = Some ''London'' \<and>
               state (ind_address ind) = None \<and>
               postal_code (ind_address ind) = Some ''WC32 4AP'') \<and>
            (s_country sess \<noteq> ''US'' \<and> s_country sess \<noteq> ''GB'' \<longrightarrow>
               city (ind_address ind) = None \<and>
               state (ind_address ind) = None \<and>
               postal_code (ind_address ind) = None))) \<and>
      (\<not> isDemoMode env \<longrightarrow>
         up_individual d = None \<and> up_company d = None \<and> up_business_type d = None)"
  proof (intro allI impI)
    fix p a d
    assume "AccountsUpdate p a d
               \<in> set (drop (length (calls w)) (calls (snd (onboard env sess body w))))"
    then have d: "d = onboardingData env sess body"
      by (rule onboard_update_calls)
    show "bp_name (up_business_profile d) = businessName body \<and>
      (isDemoMode env \<longrightarrow>
         (\<exists>ind. up_individual d = Some ind \<and>
            line1 (ind_address ind) = ''address_full_match'' \<and>
            ind_dob ind = \<lparr>day = 1, month = 1, year = 1901\<rparr> \<and>
            ind_email ind = s_email sess \<and>
            addr_country (ind_address ind) = s_country sess \<and>
            (s_country sess = ''US'' \<longrightarrow>
               city (ind_address ind) = Some ''South San Francisco'' \<and>
               state (ind_address ind) = Some ''CA'' \<and>
               postal_code (ind_address ind) = Some ''94080'') \<and>
            (s_country sess = ''GB'' \<longrightarrow>
               city (ind_address ind) = Some ''London'' \<and>
               state (ind_address ind) = None \<and>
               postal_code (ind_address ind) = Some ''WC32 4AP'') \<and>
            (s_country sess \<noteq> ''US'' \<and> s_country sess \<noteq> ''GB'' \<longrightarrow>
               city (ind_address ind) = None \<and>
               state (ind_address ind) = None \<and>
               postal_code (ind_address ind) = None))) \<and>
      (\<not> isDemoMode env \<longrightarrow>
         up_individual d = None \<and> up_company d = None \<and> up_business_type d = None)"
    proof (cases "isDemoMode env")
      case True
      then show ?thesis
        unfolding d by (simp add: onboardingData_demo)
    next
      case False
      then show ?thesis
        unfolding d by (simp add: onboardingData_plain)
    qed
  qed
next
  show "validate (if isDemoMode env then business_withOnbardingSkip env else business_default env)
      body False = Inr () \<longrightarrow>
      (\<exists>d rest. calls (snd (onboard env sess body w)) =
         calls w @
         AccountsUpdate (platform (s_stripeAccount sess)) (accountId (s_stripeAccount sess)) d # rest)"
    using onboard_submits [of env body "()" sess w] by blast
qed

theorem onboard_payload_profile_witness:
  "isDemoMode sample_env \<and>
   AccountsUpdate ''US'' ''acct_1'' (onboardingData sample_env sample_session sample_business)
     \<in> set (drop (length (calls empty_world))
              (calls (snd (onboard sample_env sample_session sample_business empty_world)))) \<and>
   bp_name (up_business_profile (onboardingData sample_env sample_session sample_business)) = ''Acme'' \<and>
   up_individual (onboardingData sample_env sample_session sample_business) =
     Some \<lparr>ind_address =
             \<lparr>line1 = ''address_full_match'', city = Some ''South San Francisco'',
              state = Some ''CA'', postal_code = Some ''94080'', addr_country = ''US''\<rparr>,
           ind_dob = \<lparr>day = 1, month = 1, year = 1901\<rparr>,
           ind_email = ''jenny@example.com'', first_name = ''John'', last_name = ''Smith'',
           phone = ''2015550123''\<rparr> \<and>
   AccountsUpdate ''US'' ''acct_1''
       (onboardingData sample_env (sample_session\<lparr>s_country := ''GB''\<rparr>) sample_business)
     \<in> set (drop (length (calls empty_world))
              (calls (snd (onboard sample_env (sample_session\<lparr>s_country := ''GB''\<rparr>)
                             sample_business empty_world)))) \<and>
   (\<exists>ind. up_individual
            (onboardingData sample_env (sample_session\<lparr>s_country := ''GB''\<rparr>) sample_business) =
            Some ind \<and>
          ind_address ind =
            \<lparr>line1 = ''address_full_match'', city = Some ''London'', state = None,
             postal_code = Some ''WC32 4AP'', addr_country = ''GB''\<rparr>) \<and>
   AccountsUpdate ''US'' ''acct_1''
       (onboardingData sample_env (sample_session\<lparr>s_country := ''FR''\<rparr>) sample_business)
     \<in> set (drop (length (calls empty_world))
              (calls (snd (onboard sample_env (sample_session\<lparr>s_country := ''FR''\<rparr>)
                             sample_business empty_world)))) \<and>
   (\<exists>ind. up_individual
            (onboardingData sample_env (sample_session\<lparr>s_country := ''FR''\<rparr>) sample_business) =
            Some ind \<and>
          ind_address ind =
            \<lparr>line1 = ''address_full_match'', city = None, state = None,
             postal_code = None, addr_country = ''FR''\<rparr>) \<and>
   \<not> isDemoMode (sample_env\<lparr>isDemoMode := False\<rparr>) \<and>
   AccountsUpdate ''US'' ''acct_1''
       (onboardingData (sample_env\<lparr>isDemoMode := False\<rparr>) sample_session sample_business)
     \<in> set (drop (length (calls empty_world))
              (calls (snd (onboard (sample_env\<lparr>isDemoMode := False\<rparr>) sample_session
                             sample_business empty_world)))) \<and>
   bp_name (up_business_profile
              (onboardingData (sample_env\<lparr>isDemoMode := False\<rparr>) sample_session sample_business)) =
     ''Acme'' \<and>
   up_individual
     (onboardingData (sample_env\<lparr>isDemoMode := False\<rparr>) sample_session sample_business) = None"
proof -
  let ?plain = "sample_env\<lparr>isDemoMode := False\<rparr>"
  let ?gb = "sample_session\<lparr>s_country := ''GB''\<rparr>"
  let ?fr = "sample_session\<lparr>s_country := ''FR''\<rparr>"
  have demo: "isDemoMode sample_env"
    by (simp add: sample_env_def)
  have plain: "\<not> isDemoMode ?plain"
    by simp
  have v: "validate (if isDemoMode sample_env then business_withOnbardingSkip sample_env
             else business_default sample_env) sample_business False = Inr ()"
    using sample_business_valid [of None] by (simp add: sample_business_def)
  have v': "validate (if isDemoMode ?plain then business_withOnbardingSkip ?plain
             else business_default ?plain) sample_business False = Inr ()"
    by (simp add: validate_Inr_iff failures_def sample_env_def sample_business_def required_def)
  have m_us: "AccountsUpdate ''US'' ''acct_1'' (onboardingData sample_env sample_session sample_business)
     \<in> set (drop (length (calls empty_world))
              (calls (snd (onboard sample_env sample_session sample_business empty_world))))"
    using onboard_submits_mem [OF v, of sample_session empty_world]
    by (simp add: sample_session_def)
  have m_gb: "AccountsUpdate ''US'' ''acct_1'' (onboardingData sample_env ?gb sample_business)
     \<in> set (drop (length (calls empty_world))
              (calls (snd (onboard sample_env ?gb sample_business empty_world))))"
    using onboard_submits_mem [OF v, of ?gb empty_world]
    by (simp add: sample_session_def)
  have m_fr: "AccountsUpdate ''US'' ''acct_1'' (onboardingData sample_env ?fr sample_business)
     \<in> set (drop (length (calls empty_world))
              (calls (snd (onboard sample_env ?fr sample_business empty_world))))"
    using onboard_submits_mem [OF v, of ?fr empty_world]
    by (simp add: sample_session_def)
  have m_plain: "AccountsUpdate ''US'' ''acct_1'' (onboardingData ?plain sample_session sample_business)
     \<in> set (drop (length (calls empty_world))
              (calls (snd (onboard ?plain sample_session sample_business empty_world))))"
    using onboard_submits_mem [OF v', of sample_session empty_world]
    by (simp add: sample_session_def)
  have us: "bp_name (up_business_profile (onboardingData sample_env sample_session sample_business)) =
              ''Acme'' \<and>
            up_individual (onboardingData sample_env sample_session sample_business) =
              Some \<lparr>ind_address =
                      \<lparr>line1 = ''address_full_match'', city = Some ''South San Francisco'',
                       state = Some ''CA'', postal_code = Some ''94080'', addr_country = ''US''\<rparr>,
                    ind_dob = \<lparr>day = 1, month = 1, year = 1901\<rparr>,
                    ind_email = ''jenny@example.com'', first_name = ''John'',
                    last_name = ''Smith'', phone = ''2015550123''\<rparr>"
    by (simp add: sample_onboardingData)
  from onboard_payload_profile [of empty_world sample_env ?gb sample_business] demo m_gb
  have "\<exists>ind. up_individual (onboardingData sample_env ?gb sample_business) = Some ind \<and>
            line1 (ind_address ind) = ''address_full_match'' \<and>
            addr_country (ind_address ind) = s_country ?gb \<and>
            (s_country ?gb = ''GB'' \<longrightarrow>
               city (ind_address ind) = Some ''London'' \<and>
               state (ind_address ind) = None \<and>
               postal_code (ind_address ind) = Some ''WC32 4AP'')"
    by blast
  then have gb: "\<exists>ind. up_individual (onboardingData sample_env ?gb sample_business) = Some ind \<and>
          ind_address ind =
            \<lparr>line1 = ''address_full_match'', city = Some ''London'', state = None,
             postal_code = Some ''WC32 4AP'', addr_country = ''GB''\<rparr>"
    by (auto simp: sample_session_def)
  from onboard_payload_profile [of empty_world sample_env ?fr sample_business] demo m_fr
  have "\<exists>ind. up_individual (onboardingData sample_env ?fr sample_business) = Some ind \<and>
            line1 (ind_address ind) = ''address_full_match'' \<and>
            addr_country (ind_address ind) = s_country ?fr \<and>
            (s_country ?fr \<noteq> ''US'' \<and> s_country ?fr \<noteq> ''GB'' \<longrightarrow>
               city (ind_address ind) = None \<and>
               state (ind_address ind) = None \<and>
               postal_code (ind_address ind) = None)"
    by blast
  then have fr: "\<exists>ind. up_individual (onboardingData sample_env ?fr sample_business) = Some ind \<and>
          ind_address ind =
            \<lparr>line1 = ''address_full_match'', city = None, state = None,
             postal_code = None, addr_country = ''FR''\<rparr>"
    by (auto simp: sample_session_def)
  from onboard_payload_profile [of empty_world ?plain sample_session sample_business] plain m_plain
  have "bp_name (up_business_profile (onboardingData ?plain sample_session sample_business)) =
          businessName sample_business \<and>
        up_individual (onboardingData ?plain sample_session sample_business) = None"
    by blast
  then have pl: "bp_name (up_business_profile (onboardingData ?plain sample_session sample_business)) =
          ''Acme'' \<and>
        up_individual (onboardingData ?plain sample_session sample_business) = None"
    by (simp add: sample_business_def)
  from demo plain m_us m_gb m_fr m_plain us gb fr pl show ?thesis
    by blast
qed

text \<open>
  C5. Once the request has passed validation and the account update has gone through:
  in demo mode with skipOnboarding true, onboard answers 200 with redirectUrl "/" and
  issues no account-link request; in every other case it requests the hosted onboarding
  link and, when the provider answers, returns 200 with the link's URL as redirectUrl.
  For every 200 answer, no account link was requested exactly when demo mode is on and
  skipOnboarding is true, which outside demo mode never holds. As the provider's link URL
  is never "/", the answer is 200 with redirectUrl "/" exactly in the bypass case.
\<close>

theorem onboard_redirect:
  "(validate (if isDemoMode env then business_withOnbardingSkip env else business_default env)
      body False = Inr () \<and>
    accounts_update env (platform (s_stripeAccount sess)) (accountId (s_stripeAccount sess))
      (onboardingData env sess body) = Inr acct \<and>
    isDemoMode env \<and> skipOnboarding body = Some True \<longrightarrow>
      onboard env sess body w =
        (Response 200 \<lparr>success = True, data = Some \<lparr>redirectUrl = ''/''\<rparr>, error = None\<rparr>,
         \<lparr>users = users w,
          calls = calls w @
            [AccountsUpdate (platform (s_stripeAccount sess)) (accountId (s_stripeAccount sess))
               (onboardingData env sess body)]\<rparr>)) \<and>
   (validate (if isDemoMode env then business_withOnbardingSkip env else business_default env)
      body False = Inr () \<and>
    accounts_update env (platform (s_stripeAccount sess)) (accountId (s_stripeAccount sess))
      (onboardingData env sess body) = Inr acct \<and>
    \<not> (isDemoMode env \<and> skipOnboarding body = Some True) \<and>
    CONNECT_ONBOARDING_REDIRECT_URL env = Some base \<and>
    accountLinks_create env
      \<lparr>link_type = ''account_onboarding'', link_account = s_stripeAccount sess,
       refresh_url = base @ ''/onboard'', return_url = base @ ''/''\<rparr> = Inr link_url \<longrightarrow>
      onboard env sess body w =
        (Response 200 \<lparr>success = True, data = Some \<lparr>redirectUrl = link_url\<rparr>, error = None\<rparr>,
         \<lparr>users = users w,
          calls = calls w @
            [AccountsUpdate (platform (s_stripeAccount sess)) (accountId (s_stripeAccount sess))
               (onboardingData env sess body),
             AccountLinksCreate
               \<lparr>link_type = ''account_onboarding'', link_account = s_stripeAccount sess,
                refresh_url = base @ ''/onboard'', return_url = base @ ''/''\<rparr>]\<rparr>)) \<and>
   (fst (onboard env sess body w) = Response 200 r \<longrightarrow>
      ((\<forall>l. AccountLinksCreate l
              \<notin> set (drop (length (calls w)) (calls (snd (onboard env sess body w))))) \<longleftrightarrow>
       isDemoMode env \<and> skipOnboarding body = Some True) \<and>
      (isDemoMode env \<and> skipOnboarding body = Some True \<longrightarrow>
         r = \<lparr>success = True, data = Some \<lparr>redirectUrl = ''/''\<rparr>, error = None\<rparr>) \<and>
      (\<not> (isDemoMode env \<and> skipOnboarding body = Some True) \<longrightarrow>
         (\<exists>l link_url.
            drop (length (calls w)) (calls (snd (onboard env sess body w))) =
              [AccountsUpdate (platform (s_stripeAccount sess)) (accountId (s_stripeAccount sess))
                 (onboardingData env sess body),
               AccountLinksCreate l] \<and>
            accountLinks_create env l = Inr link_url \<and>
            r = \<lparr>success = True, data = Some \<lparr>redirectUrl = link_url\<rparr>, error = None\<rparr>))) \<and>
   ((\<forall>l. accountLinks_create env l \<noteq> Inr ''/'') \<longrightarrow>
      (fst (onboard env sess body w) =
         Response 200 \<lparr>success = True, data = Some \<lparr>redirectUrl = ''/''\<rparr>, error = None\<rparr> \<longleftrightarrow>
       validate (if isDemoMode env then business_withOnbardingSkip env else business_default env)
         body False = Inr () \<and>
       (\<exists>acct. accounts_update env (platform (s_stripeAccount sess))
                 (accountId (s_stripeAccount sess)) (onboardingData env sess body) = Inr acct) \<and>
       isDemoMode env \<and> skipOnboarding body = Some True))"
proof (intro conjI)
  show "validate (if isDemoMode env then business_withOnbardingSkip env else business_default env)
      body False = Inr () \<and>
    accounts_update env (platform (s_stripeAccount sess)) (accountId (s_stripeAccount sess))
      (onboardingData env sess body) = Inr acct \<and>
    isDemoMode env \<and> skipOnboarding body = Some True \<longrightarrow>
      onboard env sess body w =
        (Response 200 \<lparr>success = True, data = Some \<lparr>redirectUrl = ''/''\<rparr>, error = None\<rparr>,
         \<lparr>users = users w,
          calls = calls w @
            [AccountsUpdate (platform (s_stripeAccount sess)) (accountId (s_stripeAccount sess))
               (onboardingData env sess body)]\<rparr>)"
    using onboard_bypass [of env body "()" sess acct w] by blast
next
  show "validate (if isDemoMode env then business_withOnbardingSkip env else business_default env)
      body False = Inr () \<and>
    accounts_update env (platform (s_stripeAccount sess)) (accountId (s_stripeAccount sess))
      (onboardingData env sess body) = Inr acct \<and>
    \<not> (isDemoMode env \<and> skipOnboarding body = Some True) \<and>
    CONNECT_ONBOARDING_REDIRECT_URL env = Some base \<and>
    accountLinks_create env
      \<lparr>link_type = ''account_onboarding'', link_account = s_stripeAccount sess,
       refresh_url = base @ ''/onboard'', return_url = base @ ''/''\<rparr> = Inr link_url \<longrightarrow>
      onboard env sess body w =
        (Response 200 \<lparr>success = True, data = Some \<lparr>redirectUrl = link_url\<rparr>, error = None\<rparr>,
         \<lparr>users = users w,
          calls = calls w @
            [AccountsUpdate (platform (s_stripeAccount sess)) (accountId (s_stripeAccount sess))
               (onboardingData env sess body),
             AccountLinksCreate
               \<lparr>link_type = ''account_onboarding'', link_account = s_stripeAccount sess,
                refresh_url = base @ ''/onboard'', return_url = base @ ''/''\<rparr>]\<rparr>)"
    using onboard_hosted_ok [of env body "()" sess acct base link_url w] by blast
next
  show "fst (onboard env sess body w) = Response 200 r \<longrightarrow>
      ((\<forall>l. AccountLinksCreate l
              \<notin> set (drop (length (calls w)) (calls (snd (onboard env sess body w))))) \<longleftrightarrow>
       isDemoMode env \<and> skipOnboarding body = Some True) \<and>
      (isDemoMode env \<and> skipOnboarding body = Some True \<longrightarrow>
         r = \<lparr>success = True, data = Some \<lparr>redirectUrl = ''/''\<rparr>, error = None\<rparr>) \<and>
      (\<not> (isDemoMode env \<and> skipOnboarding body = Some True) \<longrightarrow>
         (\<exists>l link_url.
            drop (length (calls w)) (calls (snd (onboard env sess body w))) =
              [AccountsUpdate (platform (s_stripeAccount sess)) (accountId (s_stripeAccount sess))
                 (onboardingData env sess body),
               AccountLinksCreate l] \<and>
            accountLinks_create env l = Inr link_url \<and>
            r = \<lparr>success = True, data = Some \<lparr>redirectUrl = link_url\<rparr>, error = None\<rparr>))"
  proof
    assume ok: "fst (onboard env sess body w) = Response 200 r"
    show "((\<forall>l. AccountLinksCreate l
              \<notin> set (drop (length (calls w)) (calls (snd (onboard env sess body w))))) \<longleftrightarrow>
       isDemoMode env \<and> skipOnboarding body = Some True) \<and>
      (isDemoMode env \<and> skipOnboarding body = Some True \<longrightarrow>
         r = \<lparr>success = True, data = Some \<lparr>redirectUrl = ''/''\<rparr>, error = None\<rparr>) \<and>
      (\<not> (isDemoMode env \<and> skipOnboarding body = Some True) \<longrightarrow>
         (\<exists>l link_url.
            drop (length (calls w)) (calls (snd (onboard env sess body w))) =
              [AccountsUpdate (platform (s_stripeAccount sess)) (accountId (s_stripeAccount sess))
                 (onboardingData env sess body),
               AccountLinksCreate l] \<and>
            accountLinks_create env l = Inr link_url \<and>
            r = \<lparr>success = True, data = Some \<lparr>redirectUrl = link_url\<rparr>, error = None\<rparr>))"
    proof (cases "isDemoMode env \<and> skipOnboarding body = Some True")
      case True
      with onboard_200 [OF ok] show ?thesis by simp
    next
      case False
      with onboard_200 [OF ok] obtain l link_url where
        "drop (length (calls w)) (calls (snd (onboard env sess body w))) =
           [AccountsUpdate (platform (s_stripeAccount sess)) (accountId (s_stripeAccount sess))
              (onboardingData env sess body),
            AccountLinksCreate l]"
        "accountLinks_create env l = Inr link_url"
        "r = \<lparr>success = True, data = Some \<lparr>redirectUrl = link_url\<rparr>, error = None\<rparr>"
        by auto
      with False show ?thesis by auto
    qed
  qed
next
  show "(\<forall>l. accountLinks_create env l \<noteq> Inr ''/'') \<longrightarrow>
      (fst (onboard env sess body w) =
         Response 200 \<lparr>success = True, data = Some \<lparr>redirectUrl = ''/''\<rparr>, error = None\<rparr> \<longleftrightarrow>
       validate (if isDemoMode env then business_withOnbardingSkip env else business_default env)
         body False = Inr () \<and>
       (\<exists>acct. accounts_update env (platform (s_stripeAccount sess))
                 (accountId (s_stripeAccount sess)) (onboardingData env sess body) = Inr acct) \<and>
       isDemoMode env \<and> skipOnboarding body = Some True)"
  proof (intro impI iffI)
    assume nl: "\<forall>l. accountLinks_create env l \<noteq> Inr ''/''"
       and ok: "fst (onboard env sess body w) =
         Response 200 \<lparr>success = True, data = Some \<lparr>redirectUrl = ''/''\<rparr>, error = None\<rparr>"
    show "validate (if isDemoMode env then business_withOnbardingSkip env else business_default env)
         body False = Inr () \<and>
       (\<exists>acct. accounts_update env (platform (s_stripeAccount sess))
                 (accountId (s_stripeAccount sess)) (onboardingData env sess body) = Inr acct) \<and>
       isDemoMode env \<and> skipOnboarding body = Some True"
    proof (cases "isDemoMode env \<and> skipOnboarding body = Some True")
      case True
      with onboard_200 [OF ok] show ?thesis by simp
    next
      case False
      with onboard_200 [OF ok] obtain l link_url where
        "accountLinks_create env l = Inr link_url"
        "\<lparr>success = True, data = Some \<lparr>redirectUrl = ''/''\<rparr>, error = None\<rparr> =
         \<lparr>success = True, data = Some \<lparr>redirectUrl = link_url\<rparr>, error = None\<rparr>"
        by auto
      then have "accountLinks_create env l = Inr ''/''"
        by simp
      with nl show ?thesis by blast
    qed
  next
    assume "validate (if isDemoMode env then business_withOnbardingSkip env else business_default env)
         body False = Inr () \<and>
       (\<exists>acct. accounts_update env (platform (s_stripeAccount sess))
                 (accountId (s_stripeAccount sess)) (onboardingData env sess body) = Inr acct) \<and>
       isDemoMode env \<and> skipOnboarding body = Some True"
    then show "fst (onboard env sess body w) =
         Response 200 \<lparr>success = True, data = Some \<lparr>redirectUrl = ''/''\<rparr>, error = None\<rparr>"
      using onboard_bypass [of env body "()" sess _ w] by auto
  qed
qed

theorem onboard_redirect_witness:
  "isDemoMode sample_env \<and>
   validate (if isDemoMode sample_env then business_withOnbardingSkip sample_env
             else business_default sample_env)
     (sample_business\<lparr>skipOnboarding := Some True\<rparr>) False = Inr () \<and>
   onboard sample_env sample_session (sample_business\<lparr>skipOnboarding := Some True\<rparr>) empty_world =
     (Response 200 \<lparr>success = True, data = Some \<lparr>redirectUrl = ''/''\<rparr>, error = None\<rparr>,
      \<lparr>users = [],
       calls = [AccountsUpdate ''US'' ''acct_1''
                  (onboardingData sample_env sample_session
                     (sample_business\<lparr>skipOnboarding := Some True\<rparr>))]\<rparr>) \<and>
   onboard sample_env sample_session sample_business empty_world =
     (Response 200
        \<lparr>success = True, data = Some \<lparr>redirectUrl = ''https://connect.stripe.com/setup/acct_1''\<rparr>,
         error = None\<rparr>,
      \<lparr>users = [],
       calls = [AccountsUpdate ''US'' ''acct_1''
                  (onboardingData sample_env sample_session sample_business),
                AccountLinksCreate
                  \<lparr>link_type = ''account_onboarding'',
                   link_account = \<lparr>accountId = ''acct_1'', platform = ''US''\<rparr>,
                   refresh_url = ''http://localhost:3000/onboard'',
                   return_url = ''http://localhost:3000/''\<rparr>]\<rparr>) \<and>
   \<not> isDemoMode (sample_env\<lparr>isDemoMode := False\<rparr>) \<and>
   onboard (sample_env\<lparr>isDemoMode := False\<rparr>) sample_session
       (sample_business\<lparr>skipOnboarding := Some True\<rparr>) empty_world =
     (Response 200
        \<lparr>success = True, data = Some \<lparr>redirectUrl = ''https://connect.stripe.com/setup/acct_1''\<rparr>,
         error = None\<rparr>,
      \<lparr>users = [],
       calls = [AccountsUpdate ''US'' ''acct_1''
                  (onboardingData (sample_env\<lparr>isDemoMode := False\<rparr>) sample_session
                     (sample_business\<lparr>skipOnboarding := Some True\<rparr>)),
                AccountLinksCreate
                  \<lparr>link_type = ''account_onboarding'',
                   link_account = \<lparr>accountId = ''acct_1'', platform = ''US''\<rparr>,
                   refresh_url = ''http://localhost:3000/onboard'',
                   return_url = ''http://localhost:3000/''\<rparr>]\<rparr>) \<and>
   (\<forall>l. accountLinks_create sample_env l \<noteq> Inr ''/'') \<and>
   (fst (onboard sample_env sample_session sample_business empty_world) \<noteq>
      Response 200 \<lparr>success = True, data = Some \<lparr>redirectUrl = ''/''\<rparr>, error = None\<rparr>)"
proof -
  let ?plain = "sample_env\<lparr>isDemoMode := False\<rparr>"
  let ?skip = "sample_business\<lparr>skipOnboarding := Some True\<rparr>"
  let ?acct = "\<lparr>acct_id = ''acct_1'', acct_requirements = None\<rparr>"
  let ?link = "\<lparr>link_type = ''account_onboarding'', link_account = s_stripeAccount sample_session,
                refresh_url = ''http://localhost:3000'' @ ''/onboard'',
                return_url = ''http://localhost:3000'' @ ''/''\<rparr>"
  have demo: "isDemoMode sample_env"
    by (simp add: sample_env_def)
  have plain: "\<not> isDemoMode ?plain"
    by simp
  have v_skip: "validate (if isDemoMode sample_env then business_withOnbardingSkip sample_env
             else business_default sample_env) ?skip False = Inr ()"
    by (rule sample_business_valid)
  have v_none: "validate (if isDemoMode sample_env then business_withOnbardingSkip sample_env
             else business_default sample_env) sample_business False = Inr ()"
    using sample_business_valid [of None] by (simp add: sample_business_def)
  have v_plain: "validate (if isDemoMode ?plain then business_withOnbardingSkip ?plain
             else business_default ?plain) ?skip False = Inr ()"
    by (simp add: validate_Inr_iff failures_def sample_env_def sample_business_def required_def)
  have a_skip: "accounts_update sample_env (platform (s_stripeAccount sample_session))
             (accountId (s_stripeAccount sample_session))
             (onboardingData sample_env sample_session ?skip) = Inr ?acct"
    by (simp add: sample_env_def sample_session_def)
  have a_none: "accounts_update sample_env (platform (s_stripeAccount sample_session))
             (accountId (s_stripeAccount sample_session))
             (onboardingData sample_env sample_session sample_business) = Inr ?acct"
    by (simp add: sample_env_def sample_session_def)
  have a_plain: "accounts_update ?plain (platform (s_stripeAccount sample_session))
             (accountId (s_stripeAccount sample_session))
             (onboardingData ?plain sample_session ?skip) = Inr ?acct"
    by (simp add: sample_env_def sample_session_def)
  have s_skip: "skipOnboarding ?skip = Some True"
    by simp
  have s_none: "\<not> (isDemoMode sample_env \<and> skipOnboarding sample_business = Some True)"
    by (simp add: sample_business_def)
  have c: "CONNECT_ONBOARDING_REDIRECT_URL sample_env = Some ''http://localhost:3000''"
    by (simp add: sample_env_def)
  have c': "CONNECT_ONBOARDING_REDIRECT_URL ?plain = Some ''http://localhost:3000''"
    by (simp add: sample_env_def)
  have l: "accountLinks_create sample_env ?link = Inr ''https://connect.stripe.com/setup/acct_1''"
    by (simp add: sample_env_def sample_session_def)
  have l': "accountLinks_create ?plain ?link = Inr ''https://connect.stripe.com/setup/acct_1''"
    by (simp add: sample_env_def sample_session_def)
  have nl: "\<forall>l. accountLinks_create sample_env l \<noteq> Inr ''/''"
    by (simp add: sample_env_def)
  from onboard_redirect
         [where env = sample_env and sess = sample_session and body = ?skip and acct = ?acct
            and w = empty_world]
       demo v_skip a_skip s_skip
  have r1: "onboard sample_env sample_session ?skip empty_world =
        (Response 200 \<lparr>success = True, data = Some \<lparr>redirectUrl = ''/''\<rparr>, error = None\<rparr>,
         \<lparr>users = users empty_world,
          calls = calls empty_world @
            [AccountsUpdate (platform (s_stripeAccount sample_session))
               (accountId (s_stripeAccount sample_session))
               (onboardingData sample_env sample_session ?skip)]\<rparr>)"
    by blast
  from onboard_redirect
         [where env = sample_env and sess = sample_session and body = sample_business
            and acct = ?acct and w = empty_world and base = "''http://localhost:3000''"
            and link_url = "''https://connect.stripe.com/setup/acct_1''"]
       v_none a_none s_none c l
  have r2: "onboard sample_env sample_session sample_business empty_world =
        (Response 200
           \<lparr>success = True,
            data = Some \<lparr>redirectUrl = ''https://connect.stripe.com/setup/acct_1''\<rparr>,
            error = None\<rparr>,
         \<lparr>users = users empty_world,
          calls = calls empty_world @
            [AccountsUpdate (platform (s_stripeAccount sample_session))
               (accountId (s_stripeAccount sample_session))
               (onboardingData sample_env sample_session sample_business),
             AccountLinksCreate ?link]\<rparr>)"
    by blast
  from onboard_redirect
         [where env = ?plain and sess = sample_session and body = ?skip
            and acct = ?acct and w = empty_world and base = "''http://localhost:3000''"
            and link_url = "''https://connect.stripe.com/setup/acct_1''"]
       v_plain a_plain plain c' l'
  have r3: "onboard ?plain sample_session ?skip empty_world =
        (Response 200
           \<lparr>success = True,
            data = Some \<lparr>redirectUrl = ''https://connect.stripe.com/setup/acct_1''\<rparr>,
            error = None\<rparr>,
         \<lparr>users = users empty_world,
          calls = calls empty_world @
            [AccountsUpdate (platform (s_stripeAccount sample_session))
               (accountId (s_stripeAccount sample_session))
               (onboardingData ?plain sample_session ?skip),
             AccountLinksCreate ?link]\<rparr>)"
    by blast
  from onboard_redirect
         [where env = sample_env and sess = sample_session and body = sample_business
            and w = empty_world]
       nl s_none
  have r4: "fst (onboard sample_env sample_session sample_business empty_world) \<noteq>
      Response 200 \<lparr>success = True, data = Some \<lparr>redirectUrl = ''/''\<rparr>, error = None\<rparr>"
    by blast
  have e1: "onboard sample_env sample_session ?skip empty_world =
     (Response 200 \<lparr>success = True, data = Some \<lparr>redirectUrl = ''/''\<rparr>, error = None\<rparr>,
      \<lparr>users = [],
       calls = [AccountsUpdate ''US'' ''acct_1''
                  (onboardingData sample_env sample_session ?skip)]\<rparr>)"
    unfolding r1 by (simp add: empty_world_def sample_session_def)
  have e2: "onboard sample_env sample_session sample_business empty_world =
     (Response 200
        \<lparr>success = True, data = Some \<lparr>redirectUrl = ''https://connect.stripe.com/setup/acct_1''\<rparr>,
         error = None\<rparr>,
      \<lparr>users = [],
       calls = [AccountsUpdate ''US'' ''acct_1''
                  (onboardingData sample_env sample_session sample_business),
                AccountLinksCreate
                  \<lparr>link_type = ''account_onboarding'',
                   link_account = \<lparr>accountId = ''acct_1'', platform = ''US''\<rparr>,
                   refresh_url = ''http://localhost:3000/onboard'',
                   return_url = ''http://localhost:3000/''\<rparr>]\<rparr>)"
    unfolding r2 by (simp add: empty_world_def sample_session_def)
  have e3: "onboard ?plain sample_session ?skip empty_world =
     (Response 200
        \<lparr>success = True, data = Some \<lparr>redirectUrl = ''https://connect.stripe.com/setup/acct_1''\<rparr>,
         error = None\<rparr>,
      \<lparr>users = [],
       calls = [AccountsUpdate ''US'' ''acct_1''
                  (onboardingData ?plain sample_session ?skip),
                AccountLinksCreate
                  \<lparr>link_type = ''account_onboarding'',
                   link_account = \<lparr>accountId = ''acct_1'', platform = ''US''\<rparr>,
                   refresh_url = ''http://localhost:3000/onboard'',
                   return_url = ''http://localhost:3000/''\<rparr>]\<rparr>)"
    unfolding r3 by (simp add: empty_world_def sample_session_def)
  from demo v_skip e1 e2 plain e3 nl r4 show ?thesis
    by blast
qed

section \<open>Validation failures in register\<close>


lemma two_members: "x \<in> set xs \<Longrightarrow> y \<in> set xs \<Longrightarrow> x \<noteq> y \<Longrightarrow> 2 \<le> length xs"
proof (cases xs)
  case Nil
  assume "x \<in> set xs"
  with Nil show ?thesis by simp
next
  case (Cons a as)
  assume "x \<in> set xs" "y \<in> set xs" "x \<noteq> y"
  with Cons have "as \<noteq> []" by auto
  with Cons show ?thesis by (cases as) auto
qed

lemma weak_password_failures:
  assumes "password body = ''abcdefgh''"
  shows "''Your password must have at least 1 digit character''
           \<in> set (failures (validationSchemas_user rEmail supported countryMessage) body)"
    and "''Your password must have at least 1 uppercase character''
           \<in> set (failures (validationSchemas_user rEmail supported countryMessage) body)"
    and "''Your password must have at least 1 lowercase character''
           \<notin> set (failures (validationSchema rEmail) body)"
    and "2 \<le> length (failures (validationSchemas_user rEmail supported countryMessage) body)"
proof -
  let ?s = "validationSchemas_user rEmail supported countryMessage"
  have d: "(\<lambda>b. matches ''0123456789'' (password b), getCharacterValidationError ''digit'') \<in> set ?s"
    by (simp add: validationSchemas_user_def validationSchema_def)
  have u: "(\<lambda>b. matches ''ABCDEFGHIJKLMNOPQRSTUVWXYZ'' (password b),
            getCharacterValidationError ''uppercase'') \<in> set ?s"
    by (simp add: validationSchemas_user_def validationSchema_def)
  show 1: "''Your password must have at least 1 digit character'' \<in> set (failures ?s body)"
    using failures_complete [OF d, of body] assms
    by (simp add: matches_def getCharacterValidationError_def)
  show 2: "''Your password must have at least 1 uppercase character'' \<in> set (failures ?s body)"
    using failures_complete [OF u, of body] assms
    by (simp add: matches_def getCharacterValidationError_def)
  show "''Your password must have at least 1 lowercase character''
           \<notin> set (failures (validationSchema rEmail) body)"
    using assms
    by (simp add: failures_def validationSchema_def matches_def getCharacterValidationError_def
        max_length_def min_length_def required_def)
  show "2 \<le> length (failures ?s body)"
    using two_members [OF 1 2] by simp
qed

lemma sample_weak_password:
  "failures (user_schema sample_env) (sample_input\<lparr>password := ''abcdefgh''\<rparr>) =
     [''Your password must have at least 1 digit character'',
      ''Your password must have at least 1 uppercase character'']"
  by (simp add: failures_def sample_env_def sample_input_def validationSchemas_user_def
      validationSchema_def email_format_def max_length_def min_length_def required_def
      matches_def getCharacterValidationError_def)

lemma sample_unsupported_country:
  "failures (user_schema sample_env) (sample_input\<lparr>country := ''FR''\<rparr>) =
     [''Country is not supported'']"
  by (simp add: failures_def sample_env_def sample_input_def validationSchemas_user_def
      validationSchema_def email_format_def max_length_def min_length_def required_def
      matches_def getCharacterValidationError_def)

text \<open>
  C9, as stated, fails on the response: with a valid e-mail and country, the password
  "abcdefgh" violates two tests, and the 400 body carries the error's message, which for
  more than one violation is the count "2 errors occurred" and not the two messages.
\<close>

theorem register_validation_message_counterexample:
  "failures (user_schema sample_env) (sample_input\<lparr>password := ''abcdefgh''\<rparr>) =
     [''Your password must have at least 1 digit character'',
      ''Your password must have at least 1 uppercase character''] \<and>
   register sample_env (sample_input\<lparr>password := ''abcdefgh''\<rparr>) empty_world =
     (Response 400 \<lparr>success = False, data = None, error = Some ''2 errors occurred''\<rparr>,
      empty_world)"
proof -
  have "validate (user_schema sample_env) (sample_input\<lparr>password := ''abcdefgh''\<rparr>) False =
          Inl (ValidationError [''Your password must have at least 1 digit character'',
                                ''Your password must have at least 1 uppercase character''])"
    by (simp add: validate_def sample_weak_password)
  then have "register sample_env (sample_input\<lparr>password := ''abcdefgh''\<rparr>) empty_world =
     (Response 400 \<lparr>success = False, data = None, error = Some ''2 errors occurred''\<rparr>,
      empty_world)"
    by (simp add: register_invalid message_def string_of_nat.simps)
  then show ?thesis
    using sample_weak_password by simp
qed

text \<open>
  C9, amended. register validates without aborting early: when validation fails, the
  thrown error lists the message of every violated test of the schema and nothing else,
  the answer is 400, and the world is unchanged (no call is issued, no row written). The
  message in the body is the error's message: the violation message itself when exactly
  one test fails, and the count "n errors occurred" otherwise. In particular, with the
  user schema, the password "abcdefgh" fails validation with the messages for the
  missing digit and the missing uppercase letter in the error's list, and the body says
  how many violations there were.
\<close>

theorem register_validation_failure:
  "(validate (user_schema env) body False = Inl e \<longrightarrow>
      (\<forall>t \<in> set (user_schema env). \<not> fst t body \<longrightarrow> snd t \<in> set (errors e)) \<and>
      (\<forall>m \<in> set (errors e). \<exists>t \<in> set (user_schema env). \<not> fst t body \<and> snd t = m) \<and>
      register env body w =
        (Response 400
           \<lparr>success = False, data = None,
            error = Some (case errors e of
                            [m] \<Rightarrow> m
                          | ms \<Rightarrow> string_of_nat (length ms) @ '' errors occurred'')\<rparr>, w)) \<and>
   (user_schema env = validationSchemas_user rEmail supported countryMessage \<and>
    password body = ''abcdefgh'' \<longrightarrow>
      (\<exists>e. validate (user_schema env) body False = Inl e \<and>
           ''Your password must have at least 1 digit character'' \<in> set (errors e) \<and>
           ''Your password must have at least 1 uppercase character'' \<in> set (errors e) \<and>
           register env body w =
             (Response 400
                \<lparr>success = False, data = None,
                 error = Some (string_of_nat (length (errors e)) @ '' errors occurred'')\<rparr>, w)))"
proof (rule conjI)
  show "validate (user_schema env) body False = Inl e \<longrightarrow>
      (\<forall>t \<in> set (user_schema env). \<not> fst t body \<longrightarrow> snd t \<in> set (errors e)) \<and>
      (\<forall>m \<in> set (errors e). \<exists>t \<in> set (user_schema env). \<not> fst t body \<and> snd t = m) \<and>
      register env body w =
        (Response 400
           \<lparr>success = False, data = None,
            error = Some (case errors e of
                            [m] \<Rightarrow> m
                          | ms \<Rightarrow> string_of_nat (length ms) @ '' errors occurred'')\<rparr>, w)"
  proof
    assume v: "validate (user_schema env) body False = Inl e"
    then have e: "errors e = failures (user_schema env) body"
      by (rule validate_eager)
    from v have ne: "errors e \<noteq> []"
      by (auto simp: validate_def split: list.splits)
    have m: "message e = (case errors e of
                            [m] \<Rightarrow> m
                          | ms \<Rightarrow> string_of_nat (length ms) @ '' errors occurred'')"
      using ne by (simp add: message_def split: list.splits)
    show "(\<forall>t \<in> set (user_schema env). \<not> fst t body \<longrightarrow> snd t \<in> set (errors e)) \<and>
      (\<forall>m \<in> set (errors e). \<exists>t \<in> set (user_schema env). \<not> fst t body \<and> snd t = m) \<and>
      register env body w =
        (Response 400
           \<lparr>success = False, data = None,
            error = Some (case errors e of
                            [m] \<Rightarrow> m
                          | ms \<Rightarrow> string_of_nat (length ms) @ '' errors occurred'')\<rparr>, w)"
    proof (intro conjI)
      show "\<forall>t \<in> set (user_schema env). \<not> fst t body \<longrightarrow> snd t \<in> set (errors e)"
        by (auto simp: e failures_def)
      show "\<forall>m \<in> set (errors e). \<exists>t \<in> set (user_schema env). \<not> fst t body \<and> snd t = m"
        by (force simp: e failures_def)
      show "register env body w =
        (Response 400
           \<lparr>success = False, data = None,
            error = Some (case errors e of
                            [m] \<Rightarrow> m
                          | ms \<Rightarrow> string_of_nat (length ms) @ '' errors occurred'')\<rparr>, w)"
        using register_invalid [OF v, of w] unfolding m by simp
    qed
  qed
next
  show "user_schema env = validationSchemas_user rEmail supported countryMessage \<and>
    password body = ''abcdefgh'' \<longrightarrow>
      (\<exists>e. validate (user_schema env) body False = Inl e \<and>
           ''Your password must have at least 1 digit character'' \<in> set (errors e) \<and>
           ''Your password must have at least 1 uppercase character'' \<in> set (errors e) \<and>
           register env body w =
             (Response 400
                \<lparr>success = False, data = None,
                 error = Some (string_of_nat (length (errors e)) @ '' errors occurred'')\<rparr>, w))"
  proof
    assume h: "user_schema env = validationSchemas_user rEmail supported countryMessage \<and>
               password body = ''abcdefgh''"
    let ?fs = "failures (user_schema env) body"
    from h have p: "password body = ''abcdefgh''"
      by simp
    have len: "2 \<le> length ?fs"
      using weak_password_failures(4) [OF p] h by simp
    then have "?fs \<noteq> []"
      by auto
    then have v: "validate (user_schema env) body False = Inl (ValidationError ?fs)"
      by (simp add: validate_def split: list.splits)
    have "message (ValidationError ?fs) = string_of_nat (length ?fs) @ '' errors occurred''"
      using len by (simp add: message_many)
    then have r: "register env body w =
             (Response 400
                \<lparr>success = False, data = None,
                 error = Some (string_of_nat (length (errors (ValidationError ?fs)))
                               @ '' errors occurred'')\<rparr>, w)"
      using register_invalid [OF v, of w] by simp
    have "''Your password must have at least 1 digit character'' \<in> set (errors (ValidationError ?fs))"
         "''Your password must have at least 1 uppercase character'' \<in> set (errors (ValidationError ?fs))"
      using weak_password_failures(1,2) [OF p] h by simp_all
    with v r show "\<exists>e. validate (user_schema env) body False = Inl e \<and>
           ''Your password must have at least 1 digit character'' \<in> set (errors e) \<and>
           ''Your password must have at least 1 uppercase character'' \<in> set (errors e) \<and>
           register env body w =
             (Response 400
                \<lparr>success = False, data = None,
                 error = Some (string_of_nat (length (errors e)) @ '' errors occurred'')\<rparr>, w)"
      by blast
  qed
qed

theorem register_validation_failure_witness:
  "validate (user_schema sample_env) (sample_input\<lparr>country := ''FR''\<rparr>) False =
     Inl (ValidationError [''Country is not supported'']) \<and>
   register sample_env (sample_input\<lparr>country := ''FR''\<rparr>) empty_world =
     (Response 400 \<lparr>success = False, data = None, error = Some ''Country is not supported''\<rparr>,
      empty_world) \<and>
   user_schema sample_env =
     validationSchemas_user (\<lambda>v. CHR ''@'' \<in> set v) [''US'', ''GB''] ''Country is not supported'' \<and>
   password (sample_input\<lparr>password := ''abcdefgh''\<rparr>) = ''abcdefgh'' \<and>
   validate (user_schema sample_env) (sample_input\<lparr>password := ''abcdefgh''\<rparr>) False =
     Inl (ValidationError [''Your password must have at least 1 digit character'',
                           ''Your password must have at least 1 uppercase character'']) \<and>
   (\<exists>e. validate (user_schema sample_env) (sample_input\<lparr>password := ''abcdefgh''\<rparr>) False = Inl e \<and>
        ''Your password must have at least 1 digit character'' \<in> set (errors e) \<and>
        ''Your password must have at least 1 uppercase character'' \<in> set (errors e) \<and>
        register sample_env (sample_input\<lparr>password := ''abcdefgh''\<rparr>) empty_world =
          (Response 400
             \<lparr>success = False, data = None,
              error = Some (string_of_nat (length (errors e)) @ '' errors occurred'')\<rparr>,
           empty_world))"
proof -
  let ?fr = "sample_input\<lparr>country := ''FR''\<rparr>"
  let ?weak = "sample_input\<lparr>password := ''abcdefgh''\<rparr>"
  have v1: "validate (user_schema sample_env) ?fr False =
              Inl (ValidationError [''Country is not supported''])"
    by (simp add: validate_def sample_unsupported_country)
  have v2: "validate (user_schema sample_env) ?weak False =
     Inl (ValidationError [''Your password must have at least 1 digit character'',
                           ''Your password must have at least 1 uppercase character''])"
    by (simp add: validate_def sample_weak_password)
  have s: "user_schema sample_env =
     validationSchemas_user (\<lambda>v. CHR ''@'' \<in> set v) [''US'', ''GB''] ''Country is not supported''"
    by (simp add: sample_env_def)
  have p: "password ?weak = ''abcdefgh''"
    by simp
  from register_validation_failure
         [where env = sample_env and body = ?fr and w = empty_world
            and e = "ValidationError [''Country is not supported'']"] v1
  have r1: "register sample_env ?fr empty_world =
     (Response 400 \<lparr>success = False, data = None, error = Some ''Country is not supported''\<rparr>,
      empty_world)"
    by simp
  from register_validation_failure
         [where env = sample_env and body = ?weak and w = empty_world
            and rEmail = "\<lambda>v. CHR ''@'' \<in> set v" and supported = "[''US'', ''GB'']"
            and countryMessage = "''Country is not supported''"] s p
  have r2: "\<exists>e. validate (user_schema sample_env) ?weak False = Inl e \<and>
        ''Your password must have at least 1 digit character'' \<in> set (errors e) \<and>
        ''Your password must have at least 1 uppercase character'' \<in> set (errors e) \<and>
        register sample_env ?weak empty_world =
          (Response 400
             \<lparr>success = False, data = None,
              error = Some (string_of_nat (length (errors e)) @ '' errors occurred'')\<rparr>,
           empty_world)"
    by blast
  from v1 r1 s p v2 r2 show ?thesis
    by blast
qed

end
